theory Spec2Isabelle
  imports Main "HOL-Library.Word"
begin

section \<open>Shader-graph materialization (plumber/asset/material.py)\<close>

text \<open>
  A shallow embedding of \<^verbatim>\<open>import_texture\<close>, \<^verbatim>\<open>import_material\<close>,
  \<^verbatim>\<open>resolve_value\<close> and \<^verbatim>\<open>resolve_input_socket\<close>.  The Python code works on the
  process-wide registry \<^verbatim>\<open>bpy.data\<close>; here the registry is an explicit state that every
  operation takes and returns.  A raised exception is the \<open>Inl\<close> branch of the result.
  Host objects are referred to the way the code holds them: an image or a material by the
  name it is registered under, a node by its position in the collection \<^verbatim>\<open>nt.nodes\<close>.

  The host (Blender's \<^verbatim>\<open>bpy\<close>) is not part of the module.  Its registries are maps from
  names to objects, \<^verbatim>\<open>new\<close> registers an object under the name it is given, and what the
  host knows about node types, sockets and assignable attributes is a parameter \<open>H\<close> of
  the build, so that every call that can raise in the host is a branch of the model.
  \<^verbatim>\<open>truncate_name\<close> is imported from another file of the repository and is a parameter
  too.  A dictionary handed over by the parser is the list of its items in iteration
  order.  When a call raises, the model gives the exception only: the registry a failed
  call leaves behind is not tracked.
\<close>

subsection \<open>Exceptions\<close>

text \<open>
  The exceptions the module can raise.  \<open>IndexError\<close> and \<open>KeyError\<close> are Python's own
  (a list index out of range; a missing dictionary or collection key).  \<open>RuntimeError\<close>
  is what \<^verbatim>\<open>nt.nodes.new\<close> raises for a node type the host does not know, and
  \<open>SetattrError\<close> stands for the \<^verbatim>\<open>AttributeError\<close>/\<^verbatim>\<open>TypeError\<close> the host raises when it
  rejects an assignment.  The module defines no exception class of its own.
\<close>

datatype py_error =
    IndexError
  | KeyError string
  | RuntimeError string
  | SetattrError string

subsection \<open>Descriptors handed over by the asset parser\<close>

type_synonym byte = "8 word"

text \<open>\<^verbatim>\<open>Texture\<close>: the accessors \<^verbatim>\<open>name()\<close>, \<^verbatim>\<open>format_ext()\<close>, \<^verbatim>\<open>width()\<close>,
  \<^verbatim>\<open>height()\<close>, \<^verbatim>\<open>bytes()\<close>.\<close>

record texture =
  tex_name :: string
  format_ext :: string
  width :: int
  height :: int
  bytes :: "byte list"

text \<open>A property or socket value is either a \<^verbatim>\<open>TextureRef\<close> (carrying \<^verbatim>\<open>path()\<close>) or any other
  Python object, which the module passes through untouched.\<close>

datatype 'v pyvalue = Plain 'v | TextureRef string

text \<open>What \<^verbatim>\<open>resolve_value\<close> returns: the object itself, an image of the registry (held by
  its registered name), or Python's \<^verbatim>\<open>None\<close>.\<close>

datatype 'v hvalue = HPlain 'v | HImage string | HNone

record socket_link =
  node_index :: int
  socket :: string

record 'v node_desc =
  blender_id :: string
  position :: "int \<times> int"
  properties :: "(string \<times> 'v pyvalue) list"
  socket_values :: "(string \<times> 'v pyvalue) list"
  socket_links :: "(string \<times> socket_link) list"



subsection \<open>Host objects\<close>

text \<open>An image of \<^verbatim>\<open>bpy.data.images\<close>.  A field the module assigns is \<open>None\<close> until it is
  assigned (the host's default is then in force).\<close>

record image =
  img_width :: int
  img_height :: int
  img_alpha :: bool
  file_format :: "string option"
  source :: "string option"
  packed_file :: "(byte list \<times> nat) option"
  alpha_mode :: "string option"
  colorspace_name :: "string option"

record 'v host_node =
  bl_idname :: string
  location :: "int \<times> int"
  attrs :: "string \<rightharpoonup> 'v hvalue"
  input_defaults :: "string \<rightharpoonup> 'v hvalue"

text \<open>A link of \<^verbatim>\<open>nt.links\<close>: from an output socket of one node to an input socket of another,
  the nodes given by their positions in \<^verbatim>\<open>nt.nodes\<close>.\<close>

record node_link =
  from_node :: nat
  from_socket :: string
  to_node :: nat
  to_socket :: string

record 'v node_tree =
  nt_nodes :: "'v host_node list"
  nt_links :: "node_link list"

record 'v material_data =
  id_props :: "string \<rightharpoonup> string"
  use_nodes :: bool
  mat_attrs :: "string \<rightharpoonup> 'v hvalue"
  node_tree :: "'v node_tree"

text \<open>The calls that create an image and upload its pixels, in the order they were made
  (a ghost field: the code keeps no such log, the host executes the calls).\<close>

datatype host_call =
    ImagesNew string int int bool
  | ImagePack string "byte list" nat

record 'v bpy_data =
  images :: "string \<rightharpoonup> image"
  materials :: "string \<rightharpoonup> 'v material_data"
  image_calls :: "host_call list"

text \<open>What the host knows about node types and assignments.  \<open>node_sockets\<close> gives the
  input and output socket names of a node type (\<open>None\<close>: no such type); the three
  predicates say which assignments the host accepts.\<close>

record 'v host =
  node_sockets :: "string \<rightharpoonup> (string list \<times> string list)"
  node_attr_ok :: "string \<Rightarrow> string \<Rightarrow> 'v hvalue \<Rightarrow> bool"
  socket_default_ok :: "string \<Rightarrow> string \<Rightarrow> 'v hvalue \<Rightarrow> bool"
  material_attr_ok :: "string \<Rightarrow> 'v hvalue \<Rightarrow> bool"

subsection \<open>Module constants\<close>

definition FORMAT_MAP :: "(string \<times> string) list" where
  "FORMAT_MAP = [(''.tga'', ''TARGA_RAW''), (''.png'', ''PNG'')]"

definition NODE_INPUT_SOCKET_MAP :: "(string \<times> string) list" where
  "NODE_INPUT_SOCKET_MAP =
     [(''Specular'', ''Specular IOR Level''), (''Emission'', ''Emission Color'')]"

subsection \<open>Host calls on images\<close>

text \<open>\<^verbatim>\<open>bpy.data.images.new(name, width, height, alpha=alpha)\<close>.\<close>

definition images_new :: "string \<Rightarrow> int \<Rightarrow> int \<Rightarrow> bool \<Rightarrow> 'v bpy_data \<Rightarrow> 'v bpy_data" where
  "images_new nm w h a bd =
     bd\<lparr>images := (images bd)(nm \<mapsto>
            \<lparr>img_width = w, img_height = h, img_alpha = a, file_format = None,
             source = None, packed_file = None, alpha_mode = None,
             colorspace_name = None\<rparr>),
        image_calls := image_calls bd @ [ImagesNew nm w h a]\<rparr>"

text \<open>An assignment to a field of the image registered as \<open>nm\<close>.\<close>

definition image_assign :: "string \<Rightarrow> (image \<Rightarrow> image) \<Rightarrow> 'v bpy_data \<Rightarrow> 'v bpy_data" where
  "image_assign nm f bd =
     bd\<lparr>images := (\<lambda>k. if k = nm then map_option f (images bd k) else images bd k)\<rparr>"

text \<open>\<^verbatim>\<open>image_data.pack(data=bytes, data_len=len(bytes))\<close>.\<close>

definition image_pack :: "string \<Rightarrow> byte list \<Rightarrow> nat \<Rightarrow> 'v bpy_data \<Rightarrow> 'v bpy_data" where
  "image_pack nm bs n bd =
     (image_assign nm (\<lambda>i. i\<lparr>packed_file := Some (bs, n)\<rparr>) bd)
       \<lparr>image_calls := image_calls bd @ [ImagePack nm bs n]\<rparr>"

subsection \<open>import_texture\<close>

text \<open>\<open>truncate_name\<close> lives in \<^verbatim>\<open>plumber/asset/utils.py\<close>; it is a parameter here.\<close>

definition import_texture ::
  "(string \<Rightarrow> string) \<Rightarrow> texture \<Rightarrow> 'v bpy_data \<Rightarrow> py_error + 'v bpy_data" where
  "import_texture truncate_name texture bd =
     (let texture_name = truncate_name (tex_name texture @ format_ext texture) in
      case images bd texture_name of
        Some image_data \<Rightarrow> Inr bd
      | None \<Rightarrow>
          (let bd1 = images_new texture_name (width texture) (height texture) True bd in
           case map_of FORMAT_MAP (format_ext texture) of
             None \<Rightarrow> Inl (KeyError (format_ext texture))
           | Some fmt \<Rightarrow>
               (let bd2 = image_assign texture_name (\<lambda>i. i\<lparr>file_format := Some fmt\<rparr>) bd1;
                    bd3 = image_assign texture_name (\<lambda>i. i\<lparr>source := Some ''FILE''\<rparr>) bd2;
                    bd4 = image_pack texture_name (bytes texture)
                            (length (bytes texture)) bd3
                in Inr (image_assign texture_name
                          (\<lambda>i. i\<lparr>alpha_mode := Some ''CHANNEL_PACKED''\<rparr>) bd4))))"

subsection \<open>resolve_value and resolve_input_socket\<close>

text \<open>\<^verbatim>\<open>bpy.data.images.get(name)\<close>: the image, or \<^verbatim>\<open>None\<close>.\<close>

definition images_get :: "'v bpy_data \<Rightarrow> string \<Rightarrow> 'v hvalue" where
  "images_get bd nm = (case images bd nm of None \<Rightarrow> HNone | Some i \<Rightarrow> HImage nm)"

text \<open>The function returns its result together with the registry it leaves behind.\<close>

definition resolve_value ::
  "(string \<Rightarrow> string) \<Rightarrow> 'v pyvalue \<Rightarrow> string \<Rightarrow> 'v bpy_data \<Rightarrow> 'v hvalue \<times> 'v bpy_data" where
  "resolve_value truncate_name v tex_ext bd =
     (case v of
        TextureRef path \<Rightarrow>
          (let texture_name = truncate_name (path @ tex_ext)
           in (images_get bd texture_name, bd))
      | Plain x \<Rightarrow> (HPlain x, bd))"

definition resolve_input_socket :: "string \<Rightarrow> string" where
  "resolve_input_socket s =
     (case map_of NODE_INPUT_SOCKET_MAP s of Some s' \<Rightarrow> s' | None \<Rightarrow> s)"

subsection \<open>Python list indexing\<close>

text \<open>\<^verbatim>\<open>xs[i]\<close>: a negative index counts from the end; an index outside
  \<open>-len(xs) .. len(xs) - 1\<close> raises \<^verbatim>\<open>IndexError\<close>.\<close>

definition py_index :: "'a list \<Rightarrow> int \<Rightarrow> py_error + 'a" where
  "py_index xs i =
     (if 0 \<le> i \<and> i < int (length xs) then Inr (xs ! nat i)
      else if i < 0 \<and> - int (length xs) \<le> i then Inr (xs ! nat (int (length xs) + i))
      else Inl IndexError)"

subsection \<open>Host calls on node trees\<close>

text \<open>\<^verbatim>\<open>nt.nodes.clear()\<close> removes every node, and with the nodes their links.\<close>

definition nodes_clear :: "'v node_tree \<Rightarrow> 'v node_tree" where
  "nodes_clear nt = nt\<lparr>nt_nodes := [], nt_links := []\<rparr>"

text \<open>\<^verbatim>\<open>nt.nodes.new(type)\<close> appends a node of that type and returns it.\<close>

definition nodes_new :: "'v host \<Rightarrow> string \<Rightarrow> 'v node_tree \<Rightarrow> py_error + ('v node_tree \<times> nat)" where
  "nodes_new H ty nt =
     (case node_sockets H ty of
        None \<Rightarrow> Inl (RuntimeError ty)
      | Some sk \<Rightarrow>
          Inr (nt\<lparr>nt_nodes := nt_nodes nt @
                 [\<lparr>bl_idname = ty, location = (0, 0), attrs = Map.empty,
                   input_defaults = Map.empty\<rparr>]\<rparr>,
               length (nt_nodes nt)))"

definition node_assign :: "nat \<Rightarrow> ('v host_node \<Rightarrow> 'v host_node) \<Rightarrow> 'v node_tree \<Rightarrow> 'v node_tree" where
  "node_assign n f nt = nt\<lparr>nt_nodes := (nt_nodes nt)[n := f (nt_nodes nt ! n)]\<rparr>"

definition inputs_of :: "'v host \<Rightarrow> string \<Rightarrow> string list" where
  "inputs_of H ty = (case node_sockets H ty of None \<Rightarrow> [] | Some (ins, outs) \<Rightarrow> ins)"

definition outputs_of :: "'v host \<Rightarrow> string \<Rightarrow> string list" where
  "outputs_of H ty = (case node_sockets H ty of None \<Rightarrow> [] | Some (ins, outs) \<Rightarrow> outs)"

text \<open>A socket object: which node it belongs to, its name, and whether it is an input
  or an output.\<close>

datatype socket_ref = InputSocket nat string | OutputSocket nat string

text \<open>\<^verbatim>\<open>node.inputs[name]\<close> and \<^verbatim>\<open>node.outputs[name]\<close>: \<^verbatim>\<open>KeyError\<close> when the node has
  no socket of that name.\<close>

definition node_input :: "'v host \<Rightarrow> 'v node_tree \<Rightarrow> nat \<Rightarrow> string \<Rightarrow> py_error + socket_ref" where
  "node_input H nt n s =
     (if s \<in> set (inputs_of H (bl_idname (nt_nodes nt ! n))) then Inr (InputSocket n s)
      else Inl (KeyError s))"

definition node_output :: "'v host \<Rightarrow> 'v node_tree \<Rightarrow> nat \<Rightarrow> string \<Rightarrow> py_error + socket_ref" where
  "node_output H nt n s =
     (if s \<in> set (outputs_of H (bl_idname (nt_nodes nt ! n))) then Inr (OutputSocket n s)
      else Inl (KeyError s))"

text \<open>A new link takes the place of any link already ending in the same input socket
  (an input socket holds one link).\<close>

definition add_link :: "node_link \<Rightarrow> 'v node_tree \<Rightarrow> 'v node_tree" where
  "add_link l nt =
     nt\<lparr>nt_links :=
          filter (\<lambda>k. \<not> (to_node k = to_node l \<and> to_socket k = to_socket l)) (nt_links nt)
          @ [l]\<rparr>"

text \<open>\<^verbatim>\<open>nt.links.new(a, b)\<close>: the host takes the two sockets in either order and refuses
  two sockets of the same direction.\<close>

fun links_new :: "socket_ref \<Rightarrow> socket_ref \<Rightarrow> 'v node_tree \<Rightarrow> py_error + 'v node_tree" where
  "links_new (InputSocket n s) (OutputSocket m t) nt =
     Inr (add_link \<lparr>from_node = m, from_socket = t, to_node = n, to_socket = s\<rparr> nt)"
| "links_new (OutputSocket m t) (InputSocket n s) nt =
     Inr (add_link \<lparr>from_node = m, from_socket = t, to_node = n, to_socket = s\<rparr> nt)"
| "links_new (InputSocket n s) (InputSocket m t) nt =
     Inl (RuntimeError ''Same input/output direction of sockets'')"
| "links_new (OutputSocket n s) (OutputSocket m t) nt =
     Inl (RuntimeError ''Same input/output direction of sockets'')"


subsection \<open>import_material\<close>

text \<open>The loops of lines 55-56 and 64-65:
  \<^verbatim>\<open>for property, value in ....properties().items(): setattr(obj, property, resolve_value(value, texture_ext))\<close>,
  on the attributes of the object; \<open>ok\<close> says which assignments the host accepts for it.\<close>

fun setattr_items ::
  "(string \<Rightarrow> 'v hvalue \<Rightarrow> bool) \<Rightarrow> (string \<Rightarrow> string) \<Rightarrow> string \<Rightarrow> 'v bpy_data \<Rightarrow>
   (string \<times> 'v pyvalue) list \<Rightarrow> (string \<rightharpoonup> 'v hvalue) \<Rightarrow> py_error + (string \<rightharpoonup> 'v hvalue)" where
  "setattr_items ok truncate_name tex_ext bd [] m = Inr m"
| "setattr_items ok truncate_name tex_ext bd ((property, v) # rest) m =
     (let hv = fst (resolve_value truncate_name v tex_ext bd) in
      if ok property hv
      then setattr_items ok truncate_name tex_ext bd rest (m(property \<mapsto> hv))
      else Inl (SetattrError property))"

text \<open>Lines 67-69, on the input defaults of a node of type \<open>ty\<close>.\<close>

fun set_socket_values ::
  "'v host \<Rightarrow> (string \<Rightarrow> string) \<Rightarrow> string \<Rightarrow> 'v bpy_data \<Rightarrow> string \<Rightarrow>
   (string \<times> 'v pyvalue) list \<Rightarrow> (string \<rightharpoonup> 'v hvalue) \<Rightarrow> py_error + (string \<rightharpoonup> 'v hvalue)" where
  "set_socket_values H truncate_name tex_ext bd ty [] m = Inr m"
| "set_socket_values H truncate_name tex_ext bd ty ((s, v) # rest) m =
     (let s' = resolve_input_socket s;
          hv = fst (resolve_value truncate_name v tex_ext bd) in
      if s' \<notin> set (inputs_of H ty) then Inl (KeyError s')
      else if \<not> socket_default_ok H ty s' hv then Inl (SetattrError s')
      else set_socket_values H truncate_name tex_ext bd ty rest (m(s' \<mapsto> hv)))"

text \<open>Lines 71-76, for the node \<open>built_node\<close> and the nodes built before it.\<close>

fun link_sockets ::
  "'v host \<Rightarrow> nat list \<Rightarrow> nat \<Rightarrow> (string \<times> socket_link) list \<Rightarrow> 'v node_tree \<Rightarrow>
   py_error + 'v node_tree" where
  "link_sockets H built_nodes built_node [] nt = Inr nt"
| "link_sockets H built_nodes built_node ((s, link) # rest) nt =
     (case py_index built_nodes (node_index link) of
        Inl e \<Rightarrow> Inl e
      | Inr target_node \<Rightarrow>
          (case node_output H nt target_node (socket link) of
             Inl e \<Rightarrow> Inl e
           | Inr target_socket \<Rightarrow>
               (case node_input H nt built_node (resolve_input_socket s) of
                  Inl e \<Rightarrow> Inl e
                | Inr inp \<Rightarrow>
                    (case links_new inp target_socket nt of
                       Inl e \<Rightarrow> Inl e
                     | Inr nt' \<Rightarrow> link_sockets H built_nodes built_node rest nt'))))"

text \<open>One pass of the loop of lines 60-78.\<close>

definition build_node ::
  "'v host \<Rightarrow> (string \<Rightarrow> string) \<Rightarrow> string \<Rightarrow> 'v bpy_data \<Rightarrow> 'v node_desc \<Rightarrow>
   'v node_tree \<times> nat list \<Rightarrow> py_error + ('v node_tree \<times> nat list)" where
  "build_node H truncate_name tex_ext bd node st =
     (case st of (nt, built_nodes) \<Rightarrow>
      (case nodes_new H (blender_id node) nt of
         Inl e \<Rightarrow> Inl e
       | Inr (nt1, built_node) \<Rightarrow>
           (let nt2 = node_assign built_node (\<lambda>n. n\<lparr>location := position node\<rparr>) nt1 in
            case setattr_items (node_attr_ok H (blender_id node)) truncate_name tex_ext bd
                   (properties node) (attrs (nt_nodes nt2 ! built_node)) of
              Inl e \<Rightarrow> Inl e
            | Inr a \<Rightarrow>
                (let nt3 = node_assign built_node (\<lambda>n. n\<lparr>attrs := a\<rparr>) nt2 in
                 case set_socket_values H truncate_name tex_ext bd (blender_id node)
                        (socket_values node) (input_defaults (nt_nodes nt3 ! built_node)) of
                   Inl e \<Rightarrow> Inl e
                 | Inr d \<Rightarrow>
                     (let nt4 = node_assign built_node (\<lambda>n. n\<lparr>input_defaults := d\<rparr>) nt3 in
                      case link_sockets H built_nodes built_node (socket_links node) nt4 of
                        Inl e \<Rightarrow> Inl e
                      | Inr nt5 \<Rightarrow> Inr (nt5, built_nodes @ [built_node]))))))"

fun build_nodes ::
  "'v host \<Rightarrow> (string \<Rightarrow> string) \<Rightarrow> string \<Rightarrow> 'v bpy_data \<Rightarrow> 'v node_desc list \<Rightarrow>
   'v node_tree \<times> nat list \<Rightarrow> py_error + ('v node_tree \<times> nat list)" where
  "build_nodes H truncate_name tex_ext bd [] st = Inr st"
| "build_nodes H truncate_name tex_ext bd (node # rest) st =
     (case build_node H truncate_name tex_ext bd node st of
        Inl e \<Rightarrow> Inl e
      | Inr st' \<Rightarrow> build_nodes H truncate_name tex_ext bd rest st')"

text \<open>Lines 58-82: the loop from an empty \<^verbatim>\<open>built_nodes\<close>, the choice of
  \<^verbatim>\<open>shader_node = built_nodes[-1]\<close> and the link to the output node.  The result is the
  tree, \<^verbatim>\<open>built_nodes\<close> and \<^verbatim>\<open>shader_node\<close>.\<close>

definition build_graph ::
  "'v host \<Rightarrow> (string \<Rightarrow> string) \<Rightarrow> string \<Rightarrow> 'v bpy_data \<Rightarrow> 'v node_desc list \<Rightarrow> nat \<Rightarrow>
   'v node_tree \<Rightarrow> py_error + ('v node_tree \<times> nat list \<times> nat)" where
  "build_graph H truncate_name tex_ext bd descs out_node nt =
     (case build_nodes H truncate_name tex_ext bd descs (nt, []) of
        Inl e \<Rightarrow> Inl e
      | Inr (nt1, built_nodes) \<Rightarrow>
          (case py_index built_nodes (- 1) of
             Inl e \<Rightarrow> Inl e
           | Inr shader_node \<Rightarrow>
               (case node_output H nt1 shader_node ''BSDF'' of
                  Inl e \<Rightarrow> Inl e
                | Inr bsdf \<Rightarrow>
                    (case node_input H nt1 out_node ''Surface'' of
                       Inl e \<Rightarrow> Inl e
                     | Inr surface \<Rightarrow>
                         (case links_new bsdf surface nt1 of
                            Inl e \<Rightarrow> Inl e
                          | Inr nt2 \<Rightarrow> Inr (nt2, built_nodes, shader_node))))))"




subsection \<open>Conditions on a node list\<close>

text \<open>What the graph builder asks of the host for a node list: every node type exists,
  every property and socket default is accepted, every socket named as the target of a
  value or a link exists on the node, and every socket named as the source of a link
  exists on the node the link addresses.  \<open>earlier\<close> are the descriptors that precede the
  one in hand; \<open>link_in_range p\<close> is Python's condition for an index into a list of
  length \<open>p\<close>, and \<open>link_target\<close> the position such an index addresses.\<close>

definition props_ok ::
  "(string \<Rightarrow> 'v hvalue \<Rightarrow> bool) \<Rightarrow> (string \<Rightarrow> string) \<Rightarrow> string \<Rightarrow> 'v bpy_data \<Rightarrow>
   (string \<times> 'v pyvalue) list \<Rightarrow> bool" where
  "props_ok ok tn ext bd ps =
     (\<forall>pv\<in>set ps. ok (fst pv) (fst (resolve_value tn (snd pv) ext bd)))"

definition socket_values_ok ::
  "'v host \<Rightarrow> (string \<Rightarrow> string) \<Rightarrow> string \<Rightarrow> 'v bpy_data \<Rightarrow> string \<Rightarrow>
   (string \<times> 'v pyvalue) list \<Rightarrow> bool" where
  "socket_values_ok H tn ext bd ty svs =
     (\<forall>sv\<in>set svs.
        resolve_input_socket (fst sv) \<in> set (inputs_of H ty) \<and>
        socket_default_ok H ty (resolve_input_socket (fst sv))
          (fst (resolve_value tn (snd sv) ext bd)))"

definition link_in_range :: "nat \<Rightarrow> socket_link \<Rightarrow> bool" where
  "link_in_range p l = (- int p \<le> node_index l \<and> node_index l < int p)"

definition link_target :: "nat \<Rightarrow> int \<Rightarrow> nat" where
  "link_target p i = (if i < 0 then nat (int p + i) else nat i)"

definition link_sockets_ok ::
  "'v host \<Rightarrow> 'v node_desc list \<Rightarrow> string \<Rightarrow> (string \<times> socket_link) list \<Rightarrow> bool" where
  "link_sockets_ok H earlier ty ls =
     (\<forall>sl\<in>set ls.
        resolve_input_socket (fst sl) \<in> set (inputs_of H ty) \<and>
        (link_in_range (length earlier) (snd sl) \<longrightarrow>
           socket (snd sl) \<in> set (outputs_of H
             (blender_id (earlier ! link_target (length earlier) (node_index (snd sl)))))))"

definition node_accepts ::
  "'v host \<Rightarrow> (string \<Rightarrow> string) \<Rightarrow> string \<Rightarrow> 'v bpy_data \<Rightarrow> 'v node_desc list \<Rightarrow>
   'v node_desc \<Rightarrow> bool" where
  "node_accepts H tn ext bd earlier nd =
     (node_sockets H (blender_id nd) \<noteq> None \<and>
      props_ok (node_attr_ok H (blender_id nd)) tn ext bd (properties nd) \<and>
      socket_values_ok H tn ext bd (blender_id nd) (socket_values nd) \<and>
      link_sockets_ok H earlier (blender_id nd) (socket_links nd))"

fun host_accepts ::
  "'v host \<Rightarrow> (string \<Rightarrow> string) \<Rightarrow> string \<Rightarrow> 'v bpy_data \<Rightarrow> 'v node_desc list \<Rightarrow>
   'v node_desc list \<Rightarrow> bool" where
  "host_accepts H tn ext bd earlier [] = True"
| "host_accepts H tn ext bd earlier (nd # rest) =
     (node_accepts H tn ext bd earlier nd \<and> host_accepts H tn ext bd (earlier @ [nd]) rest)"

fun links_in_range :: "nat \<Rightarrow> 'v node_desc list \<Rightarrow> bool" where
  "links_in_range p [] = True"
| "links_in_range p (nd # rest) =
     ((\<forall>sl\<in>set (socket_links nd). link_in_range p (snd sl)) \<and> links_in_range (Suc p) rest)"

fun has_forward_link :: "nat \<Rightarrow> 'v node_desc list \<Rightarrow> bool" where
  "has_forward_link p [] = False"
| "has_forward_link p (nd # rest) =
     ((\<exists>sl\<in>set (socket_links nd). int p \<le> node_index (snd sl)) \<or>
      has_forward_link (Suc p) rest)"

subsection \<open>Auxiliary notions\<close>

text \<open>The condition on link indices as the specification words it: every index is strictly
  less than the position of the node that holds the link.\<close>

fun links_before :: "nat \<Rightarrow> 'v node_desc list \<Rightarrow> bool" where
  "links_before p [] = True"
| "links_before p (nd # rest) =
     ((\<forall>sl\<in>set (socket_links nd). node_index (snd sl) < int p) \<and> links_before (Suc p) rest)"

text \<open>The nodes built so far are, in order, the nodes of the descriptors passed so far.\<close>

definition built_rel :: "'v node_tree \<Rightarrow> nat list \<Rightarrow> 'v node_desc list \<Rightarrow> bool" where
  "built_rel nt built earlier =
     (length built = length earlier \<and>
      (\<forall>j<length built. built ! j < length (nt_nodes nt) \<and>
           bl_idname (nt_nodes nt ! (built ! j)) = blender_id (earlier ! j)))"

text \<open>The node a descriptor has become once its properties and socket defaults are set.\<close>

definition fresh_node :: "'v node_desc \<Rightarrow> (string \<rightharpoonup> 'v hvalue) \<Rightarrow> (string \<rightharpoonup> 'v hvalue) \<Rightarrow> 'v host_node" where
  "fresh_node nd a d =
     \<lparr>bl_idname = blender_id nd, location = position nd, attrs = a, input_defaults = d\<rparr>"

text \<open>The image \<^verbatim>\<open>import_texture\<close> leaves behind for a texture and a format name.\<close>

definition new_image :: "texture \<Rightarrow> string \<Rightarrow> image" where
  "new_image t fmt =
     \<lparr>img_width = width t, img_height = height t, img_alpha = True,
      file_format = Some fmt, source = Some ''FILE'',
      packed_file = Some (bytes t, length (bytes t)),
      alpha_mode = Some ''CHANNEL_PACKED'', colorspace_name = None\<rparr>"

text \<open>The tree \<^verbatim>\<open>import_material\<close> starts the graph from (lines 46-50): cleared, with the output
  node at (300, 0).\<close>

definition out_tree :: "'v node_tree" where
  "out_tree =
     \<lparr>nt_nodes = [\<lparr>bl_idname = ''ShaderNodeOutputMaterial'', location = (300, 0),
                    attrs = Map.empty, input_defaults = Map.empty\<rparr>],
      nt_links = []\<rparr>"



subsection \<open>Example inputs\<close>

definition idt :: "string \<Rightarrow> string" where
  "idt s = s"

definition tex0 :: texture where
  "tex0 = \<lparr>tex_name = ''metal/plate01'', format_ext = ''.png'', width = 2, height = 1,
           bytes = [255, 0, 0, 255, 0, 0, 255, 255]\<rparr>"

definition bd_empty :: "string bpy_data" where
  "bd_empty = \<lparr>images = Map.empty, materials = Map.empty, image_calls = []\<rparr>"

definition bd_tex0 :: "string bpy_data" where
  "bd_tex0 =
     \<lparr>images = [''metal/plate01.png'' \<mapsto> new_image tex0 ''PNG''],
      materials = Map.empty,
      image_calls = [ImagesNew ''metal/plate01.png'' 2 1 True,
                     ImagePack ''metal/plate01.png'' [255, 0, 0, 255, 0, 0, 255, 255] 8]\<rparr>"

text \<open>A host with three node types, a tree that holds only the output node (before and after
  it is moved to (300, 0)), and descriptors of an image texture node and of a principled
  shader whose base colour is linked to the node at index \<open>i\<close>.\<close>

definition host0 :: "string host" where
  "host0 =
     \<lparr>node_sockets = map_of
        [(''ShaderNodeOutputMaterial'', ([''Surface'', ''Volume'', ''Displacement''], [])),
         (''ShaderNodeBsdfPrincipled'',
            ([''Base Color'', ''Roughness'', ''Specular IOR Level'', ''Emission Color''],
             [''BSDF''])),
         (''ShaderNodeTexImage'', ([''Vector''], [''Color'', ''Alpha'']))],
      node_attr_ok = (\<lambda>ty a v. ty = ''ShaderNodeTexImage'' \<and> a = ''image''),
      socket_default_ok = (\<lambda>ty s v. v \<noteq> HNone),
      material_attr_ok = (\<lambda>a v. a = ''blend_method'')\<rparr>"

definition tree_out :: "string node_tree" where
  "tree_out =
     \<lparr>nt_nodes = [\<lparr>bl_idname = ''ShaderNodeOutputMaterial'', location = (0, 0),
                    attrs = Map.empty, input_defaults = Map.empty\<rparr>],
      nt_links = []\<rparr>"

definition tree0 :: "string node_tree" where
  "tree0 = out_tree"

definition tex_node :: "string node_desc" where
  "tex_node =
     \<lparr>blender_id = ''ShaderNodeTexImage'', position = (- 300, 0),
      properties = [(''image'', TextureRef ''metal/plate01'')],
      socket_values = [], socket_links = []\<rparr>"

definition bsdf_node :: "int \<Rightarrow> string node_desc" where
  "bsdf_node i =
     \<lparr>blender_id = ''ShaderNodeBsdfPrincipled'', position = (0, 0),
      properties = [],
      socket_values = [(''Specular'', Plain ''0.5'')],
      socket_links = [(''Base Color'', \<lparr>node_index = i, socket = ''Color''\<rparr>)]\<rparr>"

definition plain_bsdf :: "string node_desc" where
  "plain_bsdf =
     \<lparr>blender_id = ''ShaderNodeBsdfPrincipled'', position = (0, 0),
      properties = [],
      socket_values = [(''Base Color'', Plain ''(1, 0, 0, 1)'')],
      socket_links = []\<rparr>"

text \<open>The tree once the two example nodes have been created after the output node.\<close>

definition tree_two :: "string node_tree" where
  "tree_two =
     \<lparr>nt_nodes = nt_nodes tree0 @
        [fresh_node tex_node Map.empty Map.empty,
         fresh_node (bsdf_node (- 1)) Map.empty Map.empty],
      nt_links = []\<rparr>"



section \<open>Properties\<close>

subsection \<open>Socket renaming\<close>

text \<open>C8: \<^verbatim>\<open>resolve_input_socket\<close> applies the rename table and is the identity
  elsewhere: "Specular" becomes "Specular IOR Level", "Emission" becomes "Emission Color",
  and every name that is not a key of the table is returned unchanged.\<close>

theorem resolve_input_socket_table:
  "resolve_input_socket ''Specular'' = ''Specular IOR Level'' \<and>
   resolve_input_socket ''Emission'' = ''Emission Color'' \<and>
   (\<forall>s. s \<notin> fst ` set NODE_INPUT_SOCKET_MAP \<longrightarrow> resolve_input_socket s = s)"
  by (simp add: resolve_input_socket_def NODE_INPUT_SOCKET_MAP_def)

text \<open>The unmapped name "Roughness" passes through.\<close>

theorem resolve_input_socket_table_witness:
  "''Roughness'' \<notin> fst ` set NODE_INPUT_SOCKET_MAP \<and>
   resolve_input_socket ''Roughness'' = ''Roughness''"
proof -
  have h: "''Roughness'' \<notin> fst ` set NODE_INPUT_SOCKET_MAP"
    by (simp add: NODE_INPUT_SOCKET_MAP_def)
  from resolve_input_socket_table have
    "''Roughness'' \<notin> fst ` set NODE_INPUT_SOCKET_MAP \<longrightarrow>
     resolve_input_socket ''Roughness'' = ''Roughness''"
    by blast
  with h show ?thesis by simp
qed

subsection \<open>Textures\<close>

lemma import_texture_hit:
  "images bd (tn (tex_name t @ format_ext t)) = Some img \<Longrightarrow> import_texture tn t bd = Inr bd"
  by (simp add: import_texture_def)

lemma import_texture_miss:
  assumes "images bd (tn (tex_name t @ format_ext t)) = None"
    and "map_of FORMAT_MAP (format_ext t) = Some fmt"
  shows "import_texture tn t bd =
           Inr (bd\<lparr>images := (images bd)(tn (tex_name t @ format_ext t) \<mapsto> new_image t fmt),
                   image_calls := image_calls bd @
                     [ImagesNew (tn (tex_name t @ format_ext t)) (width t) (height t) True,
                      ImagePack (tn (tex_name t @ format_ext t)) (bytes t) (length (bytes t))]\<rparr>)"
  using assms
  by (simp add: import_texture_def images_new_def image_assign_def image_pack_def Let_def
        new_image_def fun_eq_iff)

lemma import_texture_tex0: "import_texture idt tex0 bd_empty = Inr bd_tex0"
proof -
  have "images bd_empty (idt (tex_name tex0 @ format_ext tex0)) = None"
    by (simp add: bd_empty_def)
  moreover have "map_of FORMAT_MAP (format_ext tex0) = Some ''PNG''"
    by (simp add: FORMAT_MAP_def tex0_def)
  ultimately have "import_texture idt tex0 bd_empty =
      Inr (bd_empty\<lparr>images := (images bd_empty)(idt (tex_name tex0 @ format_ext tex0) \<mapsto>
                        new_image tex0 ''PNG''),
                   image_calls := image_calls bd_empty @
                     [ImagesNew (idt (tex_name tex0 @ format_ext tex0)) (width tex0)
                        (height tex0) True,
                      ImagePack (idt (tex_name tex0 @ format_ext tex0)) (bytes tex0)
                        (length (bytes tex0))]\<rparr>)"
    by (rule import_texture_miss)
  then show ?thesis
    by (simp add: bd_empty_def bd_tex0_def tex0_def idt_def)
qed

text \<open>C3, as the code has it: \<^verbatim>\<open>resolve_value\<close> only reads the registry.  It leaves the
  registry as it was, whatever the value; for a \<^verbatim>\<open>TextureRef\<close> whose key
  \<^verbatim>\<open>truncate_name(path + texture_ext)\<close> names no image it returns \<^verbatim>\<open>None\<close> (no exception
  is raised), and when the key names an image it returns that image.\<close>

theorem resolve_value_reads_only:
  "snd (resolve_value tn v ext bd) = bd \<and>
   (images bd (tn (path @ ext)) = None \<longrightarrow>
      fst (resolve_value tn (TextureRef path) ext bd) = HNone) \<and>
   (images bd (tn (path @ ext)) \<noteq> None \<longrightarrow>
      fst (resolve_value tn (TextureRef path) ext bd) = HImage (tn (path @ ext)))"
  by (auto simp: resolve_value_def images_get_def Let_def split: pyvalue.splits)

text \<open>Before and after the texture "metal/plate01" with extension ".png" is
  materialized.\<close>

theorem resolve_value_reads_only_witness:
  "images bd_empty (idt (''metal/plate01'' @ ''.png'')) = None \<and>
   resolve_value idt (TextureRef ''metal/plate01'') ''.png'' bd_empty = (HNone, bd_empty) \<and>
   images bd_tex0 (idt (''metal/plate01'' @ ''.png'')) \<noteq> None \<and>
   resolve_value idt (TextureRef ''metal/plate01'') ''.png'' bd_tex0 =
     (HImage ''metal/plate01.png'', bd_tex0)"
proof -
  have h1: "images bd_empty (idt (''metal/plate01'' @ ''.png'')) = None"
    by (simp add: bd_empty_def)
  have h2: "images bd_tex0 (idt (''metal/plate01'' @ ''.png'')) \<noteq> None"
    by (simp add: bd_tex0_def idt_def)
  have k: "idt (''metal/plate01'' @ ''.png'') = ''metal/plate01.png''"
    by (simp add: idt_def)
  from resolve_value_reads_only
    [of idt "TextureRef ''metal/plate01''" "''.png''" bd_empty "''metal/plate01''"] h1
  have a: "resolve_value idt (TextureRef ''metal/plate01'') ''.png'' bd_empty = (HNone, bd_empty)"
    by (simp add: prod_eq_iff)
  from resolve_value_reads_only
    [of idt "TextureRef ''metal/plate01''" "''.png''" bd_tex0 "''metal/plate01''"] h2 k
  have b: "resolve_value idt (TextureRef ''metal/plate01'') ''.png'' bd_tex0 =
      (HImage ''metal/plate01.png'', bd_tex0)"
    by (simp add: prod_eq_iff)
  from h1 h2 a b show ?thesis by blast
qed

text \<open>C3 as stated fails: resolving the reference before any texture is materialized
  returns \<^verbatim>\<open>None\<close> normally instead of raising.\<close>

theorem resolve_value_miss_returns_none:
  "resolve_value idt (TextureRef ''metal/plate01'') ''.png'' bd_empty = (HNone, bd_empty)"
  by (simp add: resolve_value_def images_get_def bd_empty_def)

text \<open>C5: when the derived key already names an image, \<^verbatim>\<open>import_texture\<close> leaves the
  whole registry (the image and the log of creation and upload calls) as it is.  From a
  registry without the key, and for an extension of \<open>FORMAT_MAP\<close>, the first call makes
  one \<^verbatim>\<open>images.new\<close> and one \<^verbatim>\<open>pack\<close> call, and a second call with the same descriptor, or
  with any descriptor of the same key whatever its dimensions and bytes, changes nothing
  and raises nothing.\<close>

theorem import_texture_cached:
  "(images bd (tn (tex_name t @ format_ext t)) \<noteq> None \<longrightarrow> import_texture tn t bd = Inr bd) \<and>
   (images bd (tn (tex_name t @ format_ext t)) = None \<and>
    format_ext t \<in> fst ` set FORMAT_MAP \<longrightarrow>
      (\<exists>bd1. import_texture tn t bd = Inr bd1 \<and>
             import_texture tn t bd1 = Inr bd1 \<and>
             image_calls bd1 = image_calls bd @
               [ImagesNew (tn (tex_name t @ format_ext t)) (width t) (height t) True,
                ImagePack (tn (tex_name t @ format_ext t)) (bytes t) (length (bytes t))] \<and>
             (\<forall>t'. tn (tex_name t' @ format_ext t') = tn (tex_name t @ format_ext t) \<longrightarrow>
                   import_texture tn t' bd1 = Inr bd1)))"
proof (intro conjI impI)
  assume "images bd (tn (tex_name t @ format_ext t)) \<noteq> None"
  then show "import_texture tn t bd = Inr bd"
    by (auto intro: import_texture_hit)
next
  assume a: "images bd (tn (tex_name t @ format_ext t)) = None \<and>
    format_ext t \<in> fst ` set FORMAT_MAP"
  then obtain fmt where f: "map_of FORMAT_MAP (format_ext t) = Some fmt"
    by (auto simp: FORMAT_MAP_def)
  let ?k = "tn (tex_name t @ format_ext t)"
  let ?bd1 = "bd\<lparr>images := (images bd)(?k \<mapsto> new_image t fmt),
                   image_calls := image_calls bd @
                     [ImagesNew ?k (width t) (height t) True,
                      ImagePack ?k (bytes t) (length (bytes t))]\<rparr>"
  have 1: "import_texture tn t bd = Inr ?bd1"
    using a f by (simp add: import_texture_miss)
  have 2: "images ?bd1 ?k = Some (new_image t fmt)" by simp
  have 3: "\<forall>t'. tn (tex_name t' @ format_ext t') = ?k \<longrightarrow> import_texture tn t' ?bd1 = Inr ?bd1"
    using 2 by (metis import_texture_hit)
  have 4: "image_calls ?bd1 = image_calls bd @
               [ImagesNew ?k (width t) (height t) True,
                ImagePack ?k (bytes t) (length (bytes t))]" by simp
  from 1 3 4 show "\<exists>bd1. import_texture tn t bd = Inr bd1 \<and>
             import_texture tn t bd1 = Inr bd1 \<and>
             image_calls bd1 = image_calls bd @
               [ImagesNew ?k (width t) (height t) True,
                ImagePack ?k (bytes t) (length (bytes t))] \<and>
             (\<forall>t'. tn (tex_name t' @ format_ext t') = ?k \<longrightarrow>
                   import_texture tn t' bd1 = Inr bd1)"
    by blast
qed

text \<open>Two calls for "metal/plate01" on an empty registry: one creation and one upload
  in all; a third call with other dimensions and no bytes changes nothing either.\<close>

theorem import_texture_cached_witness:
  "images bd_empty (idt (tex_name tex0 @ format_ext tex0)) = None \<and>
   format_ext tex0 \<in> fst ` set FORMAT_MAP \<and>
   import_texture idt tex0 bd_empty = Inr bd_tex0 \<and>
   images bd_tex0 (idt (tex_name tex0 @ format_ext tex0)) \<noteq> None \<and>
   import_texture idt tex0 bd_tex0 = Inr bd_tex0 \<and>
   import_texture idt (tex0\<lparr>width := 64, height := 64, bytes := []\<rparr>) bd_tex0 = Inr bd_tex0 \<and>
   image_calls bd_tex0 = image_calls bd_empty @
     [ImagesNew ''metal/plate01.png'' 2 1 True,
      ImagePack ''metal/plate01.png'' [255, 0, 0, 255, 0, 0, 255, 255] 8]"
proof -
  have h1: "images bd_empty (idt (tex_name tex0 @ format_ext tex0)) = None"
    by (simp add: bd_empty_def)
  have h2: "format_ext tex0 \<in> fst ` set FORMAT_MAP"
    by (simp add: tex0_def FORMAT_MAP_def)
  have h3: "images bd_tex0 (idt (tex_name tex0 @ format_ext tex0)) \<noteq> None"
    by (simp add: bd_tex0_def tex0_def idt_def)
  from import_texture_cached [of bd_empty idt tex0] h1 h2
  obtain bd1 where b: "import_texture idt tex0 bd_empty = Inr bd1"
      "import_texture idt tex0 bd1 = Inr bd1"
      "\<forall>t'. idt (tex_name t' @ format_ext t') = idt (tex_name tex0 @ format_ext tex0) \<longrightarrow>
            import_texture idt t' bd1 = Inr bd1"
    by auto
  have e: "bd1 = bd_tex0"
    using b(1) by (simp add: import_texture_tex0)
  have c: "import_texture idt (tex0\<lparr>width := 64, height := 64, bytes := []\<rparr>) bd_tex0 = Inr bd_tex0"
    using b(3) e by simp
  have d: "image_calls bd_tex0 = image_calls bd_empty @
     [ImagesNew ''metal/plate01.png'' 2 1 True,
      ImagePack ''metal/plate01.png'' [255, 0, 0, 255, 0, 0, 255, 255] 8]"
    by (simp add: bd_tex0_def bd_empty_def)
  from import_texture_cached [of bd_tex0 idt tex0] h3
  have f: "import_texture idt tex0 bd_tex0 = Inr bd_tex0" by simp
  from h1 h2 h3 b(1) e c d f show ?thesis by simp
qed

text \<open>C6, as the code has it: when no image exists under the derived key and the
  extension is a key of \<open>FORMAT_MAP\<close>, \<^verbatim>\<open>import_texture\<close> succeeds and registers under the key
  an image with the descriptor's width and height and an alpha channel, whose
  \<^verbatim>\<open>file_format\<close> is the table's entry for the extension, whose \<^verbatim>\<open>source\<close> is "FILE", into
  which the byte buffer is packed with its length, and whose \<^verbatim>\<open>alpha_mode\<close> is
  "CHANNEL_PACKED"; no other image and no material is touched.\<close>

theorem import_texture_creates:
  assumes "images bd (tn (tex_name t @ format_ext t)) = None"
    and "map_of FORMAT_MAP (format_ext t) = Some fmt"
  shows "\<exists>bd1. import_texture tn t bd = Inr bd1 \<and>
           images bd1 (tn (tex_name t @ format_ext t)) =
             Some \<lparr>img_width = width t, img_height = height t, img_alpha = True,
                   file_format = Some fmt, source = Some ''FILE'',
                   packed_file = Some (bytes t, length (bytes t)),
                   alpha_mode = Some ''CHANNEL_PACKED'', colorspace_name = None\<rparr> \<and>
           (\<forall>k. k \<noteq> tn (tex_name t @ format_ext t) \<longrightarrow> images bd1 k = images bd k) \<and>
           materials bd1 = materials bd"
  using assms by (simp add: import_texture_miss new_image_def)

theorem import_texture_creates_witness:
  "images bd_empty (idt (tex_name tex0 @ format_ext tex0)) = None \<and>
   map_of FORMAT_MAP (format_ext tex0) = Some ''PNG'' \<and>
   (\<exists>bd1. import_texture idt tex0 bd_empty = Inr bd1 \<and>
      images bd1 ''metal/plate01.png'' =
        Some \<lparr>img_width = 2, img_height = 1, img_alpha = True,
              file_format = Some ''PNG'', source = Some ''FILE'',
              packed_file = Some ([255, 0, 0, 255, 0, 0, 255, 255], 8),
              alpha_mode = Some ''CHANNEL_PACKED'', colorspace_name = None\<rparr>)"
proof -
  have h1: "images bd_empty (idt (tex_name tex0 @ format_ext tex0)) = None"
    by (simp add: bd_empty_def)
  have h2: "map_of FORMAT_MAP (format_ext tex0) = Some ''PNG''"
    by (simp add: FORMAT_MAP_def tex0_def)
  from import_texture_creates [of bd_empty idt tex0 "''PNG''"] h1 h2
  obtain bd1 where b: "import_texture idt tex0 bd_empty = Inr bd1"
    "images bd1 (idt (tex_name tex0 @ format_ext tex0)) =
       Some \<lparr>img_width = width tex0, img_height = height tex0, img_alpha = True,
             file_format = Some ''PNG'', source = Some ''FILE'',
             packed_file = Some (bytes tex0, length (bytes tex0)),
             alpha_mode = Some ''CHANNEL_PACKED'', colorspace_name = None\<rparr>"
    by blast
  from b(2) have "images bd1 ''metal/plate01.png'' =
        Some \<lparr>img_width = 2, img_height = 1, img_alpha = True,
              file_format = Some ''PNG'', source = Some ''FILE'',
              packed_file = Some ([255, 0, 0, 255, 0, 0, 255, 255], 8),
              alpha_mode = Some ''CHANNEL_PACKED'', colorspace_name = None\<rparr>"
    by (simp add: tex0_def idt_def)
  with b(1) h1 h2 show ?thesis by blast
qed

text \<open>C6 as stated fails: the image created for "metal/plate01" has its \<^verbatim>\<open>source\<close> set to
  "FILE", the host's file-backed source type.\<close>

theorem import_texture_source_is_file:
  "import_texture idt tex0 bd_empty =
     Inr \<lparr>images = [''metal/plate01.png'' \<mapsto>
             \<lparr>img_width = 2, img_height = 1, img_alpha = True, file_format = Some ''PNG'',
              source = Some ''FILE'',
              packed_file = Some ([255, 0, 0, 255, 0, 0, 255, 255], 8),
              alpha_mode = Some ''CHANNEL_PACKED'', colorspace_name = None\<rparr>],
          materials = Map.empty,
          image_calls = [ImagesNew ''metal/plate01.png'' 2 1 True,
                         ImagePack ''metal/plate01.png'' [255, 0, 0, 255, 0, 0, 255, 255] 8]\<rparr>"
  by (simp add: import_texture_def tex0_def bd_empty_def images_new_def image_assign_def
        image_pack_def FORMAT_MAP_def Let_def fun_eq_iff idt_def)

subsection \<open>Python indexing\<close>

lemma py_index_in_range:
  "link_in_range (length xs) l \<Longrightarrow>
   py_index xs (node_index l) = Inr (xs ! link_target (length xs) (node_index l))"
  by (auto simp: py_index_def link_in_range_def link_target_def)

lemma py_index_out_of_range:
  "\<not> link_in_range (length xs) l \<Longrightarrow> py_index xs (node_index l) = Inl IndexError"
  by (auto simp: py_index_def link_in_range_def)

lemma py_index_mem: "py_index xs i = Inr x \<Longrightarrow> x \<in> set xs"
  by (auto simp: py_index_def split: if_splits)

lemma link_target_less: "link_in_range p l \<Longrightarrow> link_target p (node_index l) < p"
  by (auto simp: link_in_range_def link_target_def)

lemma py_index_last: "xs \<noteq> [] \<Longrightarrow> py_index xs (- 1) = Inr (last xs)"
  by (cases xs rule: rev_cases) (auto simp: py_index_def nth_append)

lemma py_index_Nil: "py_index [] i = Inl IndexError"
  by (simp add: py_index_def)

subsection \<open>Properties and socket defaults\<close>

lemma setattr_items_ok:
  "props_ok ok tn ext bd ps \<Longrightarrow> \<exists>m'. setattr_items ok tn ext bd ps m = Inr m'"
  by (induction ps arbitrary: m) (auto simp: props_ok_def Let_def)

lemma set_socket_values_ok:
  "socket_values_ok H tn ext bd ty svs \<Longrightarrow> \<exists>m'. set_socket_values H tn ext bd ty svs m = Inr m'"
  by (induction svs arbitrary: m) (auto simp: socket_values_ok_def Let_def)

subsection \<open>Links\<close>

lemma links_new_nodes: "links_new a b nt = Inr nt' \<Longrightarrow> nt_nodes nt' = nt_nodes nt"
  by (cases a; cases b) (auto simp: add_link_def)

lemma link_sockets_nodes:
  "link_sockets H built b ls nt = Inr nt' \<Longrightarrow> nt_nodes nt' = nt_nodes nt"
proof (induction ls arbitrary: nt)
  case Nil
  then show ?case by simp
next
  case (Cons sl ls)
  obtain s l where sl: "sl = (s, l)" by (cases sl)
  from Cons.prems sl obtain nt1 where
    "link_sockets H built b ls nt1 = Inr nt'" "nt_nodes nt1 = nt_nodes nt"
    by (auto split: sum.splits dest: links_new_nodes)
  with Cons.IH show ?case by simp
qed

lemma link_sockets_links:
  "link_sockets H built b ls nt = Inr nt' \<Longrightarrow> l \<in> set (nt_links nt') \<Longrightarrow>
   l \<in> set (nt_links nt) \<or> (from_node l \<in> set built \<and> to_node l = b)"
proof (induction ls arbitrary: nt)
  case Nil
  then show ?case by simp
next
  case (Cons sl ls)
  obtain s k where sl: "sl = (s, k)" by (cases sl)
  from Cons.prems(1) sl obtain tgt nt1 where
    t: "py_index built (node_index k) = Inr tgt"
    and n: "links_new (InputSocket b (resolve_input_socket s)) (OutputSocket tgt (socket k)) nt = Inr nt1"
    and r: "link_sockets H built b ls nt1 = Inr nt'"
    by (auto simp: node_input_def node_output_def split: sum.splits if_splits)
  from Cons.IH [OF r Cons.prems(2)]
  have "l \<in> set (nt_links nt1) \<or> from_node l \<in> set built \<and> to_node l = b" .
  moreover have "l \<in> set (nt_links nt1) \<Longrightarrow>
      l \<in> set (nt_links nt) \<or> (from_node l \<in> set built \<and> to_node l = b)"
    using n py_index_mem [OF t] by (auto simp: add_link_def)
  ultimately show ?case by blast
qed

lemma link_sockets_range:
  "link_sockets H built b ls nt = Inr nt' \<Longrightarrow> sl \<in> set ls \<Longrightarrow>
   link_in_range (length built) (snd sl)"
proof (induction ls arbitrary: nt)
  case Nil
  then show ?case by simp
next
  case (Cons x ls)
  obtain s k where x: "x = (s, k)" by (cases x)
  from Cons.prems(1) x obtain tgt nt1 where
    t: "py_index built (node_index k) = Inr tgt"
    and r: "link_sockets H built b ls nt1 = Inr nt'"
    by (auto split: sum.splits)
  have "link_in_range (length built) k"
    using t py_index_out_of_range [of built k] by (cases "link_in_range (length built) k") auto
  with Cons.IH [OF r] Cons.prems(2) x show ?case by auto
qed

subsection \<open>One node\<close>

lemma build_node_eq:
  "build_node H tn ext bd nd (nt, built) =
     (case node_sockets H (blender_id nd) of
        None \<Rightarrow> Inl (RuntimeError (blender_id nd))
      | Some sk \<Rightarrow>
         (case setattr_items (node_attr_ok H (blender_id nd)) tn ext bd (properties nd) Map.empty of
            Inl e \<Rightarrow> Inl e
          | Inr a \<Rightarrow>
             (case set_socket_values H tn ext bd (blender_id nd) (socket_values nd) Map.empty of
                Inl e \<Rightarrow> Inl e
              | Inr d \<Rightarrow>
                 (case link_sockets H built (length (nt_nodes nt)) (socket_links nd)
                         (nt\<lparr>nt_nodes := nt_nodes nt @ [fresh_node nd a d]\<rparr>) of
                    Inl e \<Rightarrow> Inl e
                  | Inr nt5 \<Rightarrow> Inr (nt5, built @ [length (nt_nodes nt)])))))"
  by (simp add: build_node_def nodes_new_def node_assign_def fresh_node_def Let_def
        split: option.splits sum.splits)

lemma build_node_Inr:
  assumes "build_node H tn ext bd nd (nt, built) = Inr (nt', built')"
  shows "built' = built @ [length (nt_nodes nt)]"
    and "\<exists>x. nt_nodes nt' = nt_nodes nt @ [x] \<and> bl_idname x = blender_id nd"
    and "\<forall>l\<in>set (nt_links nt'). l \<in> set (nt_links nt) \<or>
           (from_node l \<in> set built \<and> to_node l = length (nt_nodes nt))"
    and "\<forall>sl\<in>set (socket_links nd). link_in_range (length built) (snd sl)"
proof -
  from assms obtain a d where
    ls: "link_sockets H built (length (nt_nodes nt)) (socket_links nd)
           (nt\<lparr>nt_nodes := nt_nodes nt @ [fresh_node nd a d]\<rparr>) = Inr nt'"
    and b: "built' = built @ [length (nt_nodes nt)]"
    by (auto simp: build_node_eq split: option.splits sum.splits)
  show "built' = built @ [length (nt_nodes nt)]" by (rule b)
  from link_sockets_nodes [OF ls]
  show "\<exists>x. nt_nodes nt' = nt_nodes nt @ [x] \<and> bl_idname x = blender_id nd"
    by (simp add: fresh_node_def)
  show "\<forall>l\<in>set (nt_links nt'). l \<in> set (nt_links nt) \<or>
           (from_node l \<in> set built \<and> to_node l = length (nt_nodes nt))"
    using link_sockets_links [OF ls] by auto
  show "\<forall>sl\<in>set (socket_links nd). link_in_range (length built) (snd sl)"
    using link_sockets_range [OF ls] by blast
qed

subsection \<open>The loop over the descriptors\<close>

lemma upt_add_Suc: "[n..<Suc (n + k)] = n # [Suc n..<Suc (n + k)]"
  by (rule upt_conv_Cons) simp

lemma build_nodes_append:
  "build_nodes H tn ext bd (ds @ es) st =
     (case build_nodes H tn ext bd ds st of
        Inl e \<Rightarrow> Inl e
      | Inr st' \<Rightarrow> build_nodes H tn ext bd es st')"
  by (induction ds arbitrary: st) (auto split: sum.splits)

lemma build_nodes_Inr:
  assumes "build_nodes H tn ext bd ds (nt, built) = Inr (nt', built')"
  shows "built' = built @ [length (nt_nodes nt)..<length (nt_nodes nt) + length ds] \<and>
         (\<exists>xs. nt_nodes nt' = nt_nodes nt @ xs \<and> map bl_idname xs = map blender_id ds) \<and>
         (\<forall>l\<in>set (nt_links nt'). l \<in> set (nt_links nt) \<or> from_node l \<in> set built') \<and>
         links_in_range (length built) ds"
  using assms
proof (induction ds arbitrary: nt built)
  case Nil
  then show ?case by simp
next
  case (Cons nd ds)
  from Cons.prems obtain nt1 built1 where
    s: "build_node H tn ext bd nd (nt, built) = Inr (nt1, built1)"
    and r: "build_nodes H tn ext bd ds (nt1, built1) = Inr (nt', built')"
    by (auto split: sum.splits)
  note n = build_node_Inr [OF s]
  from n(2) obtain x where x: "nt_nodes nt1 = nt_nodes nt @ [x]" "bl_idname x = blender_id nd"
    by blast
  from Cons.IH [OF r] obtain xs where
    i1: "built' = built1 @ [length (nt_nodes nt1)..<length (nt_nodes nt1) + length ds]"
    and i2: "nt_nodes nt' = nt_nodes nt1 @ xs" "map bl_idname xs = map blender_id ds"
    and i3: "\<forall>l\<in>set (nt_links nt'). l \<in> set (nt_links nt1) \<or> from_node l \<in> set built'"
    and i4: "links_in_range (length built1) ds"
    by blast
  have a: "built' = built @ [length (nt_nodes nt)..<length (nt_nodes nt) + length (nd # ds)]"
    using i1 n(1) x(1) by (simp del: upt_Suc add: upt_add_Suc)
  have b: "\<exists>ys. nt_nodes nt' = nt_nodes nt @ ys \<and> map bl_idname ys = map blender_id (nd # ds)"
    using i2 x by (intro exI [of _ "x # xs"]) simp
  have c: "\<forall>l\<in>set (nt_links nt'). l \<in> set (nt_links nt) \<or> from_node l \<in> set built'"
    using i3 n(3) i1 n(1) by auto
  have d: "links_in_range (length built) (nd # ds)"
    using i4 n(4) n(1) by simp
  from a b c d show ?case by blast
qed

subsection \<open>When the build succeeds\<close>

lemma link_sockets_ok:
  assumes "nt_nodes nt = ns"
    and "\<forall>sl\<in>set ls. link_in_range (length built) (snd sl) \<and>
           resolve_input_socket (fst sl) \<in> set (inputs_of H (bl_idname (ns ! b))) \<and>
           socket (snd sl) \<in> set (outputs_of H (bl_idname
             (ns ! (built ! link_target (length built) (node_index (snd sl))))))"
  shows "\<exists>nt'. link_sockets H built b ls nt = Inr nt'"
  using assms
proof (induction ls arbitrary: nt)
  case Nil
  then show ?case by simp
next
  case (Cons sl ls)
  obtain s k where sl: "sl = (s, k)" by (cases sl)
  let ?t = "built ! link_target (length built) (node_index k)"
  let ?nt1 = "add_link \<lparr>from_node = ?t, from_socket = socket k, to_node = b,
                 to_socket = resolve_input_socket s\<rparr> nt"
  from Cons.prems sl have r: "link_in_range (length built) k"
    and i: "resolve_input_socket s \<in> set (inputs_of H (bl_idname (nt_nodes nt ! b)))"
    and out: "socket k \<in> set (outputs_of H (bl_idname (nt_nodes nt ! ?t)))"
    by auto
  have n1: "nt_nodes ?nt1 = ns" using Cons.prems(1) by (simp add: add_link_def)
  have step: "link_sockets H built b (sl # ls) nt = link_sockets H built b ls ?nt1"
    using r i out sl by (simp add: py_index_in_range node_output_def node_input_def)
  from Cons.IH [OF n1] Cons.prems(2) obtain nt' where
    "link_sockets H built b ls ?nt1 = Inr nt'" by auto
  with step show ?case by simp
qed

lemma build_node_ok:
  assumes rel: "built_rel nt built earlier"
    and acc: "node_accepts H tn ext bd earlier nd"
    and rng: "\<forall>sl\<in>set (socket_links nd). link_in_range (length earlier) (snd sl)"
  shows "\<exists>nt'. build_node H tn ext bd nd (nt, built) = Inr (nt', built @ [length (nt_nodes nt)]) \<and>
           built_rel nt' (built @ [length (nt_nodes nt)]) (earlier @ [nd])"
proof -
  from acc obtain sk where sk: "node_sockets H (blender_id nd) = Some sk"
    by (auto simp: node_accepts_def)
  from acc obtain a where a: "setattr_items (node_attr_ok H (blender_id nd)) tn ext bd
      (properties nd) Map.empty = Inr a"
    using setattr_items_ok by (fastforce simp: node_accepts_def)
  from acc obtain d where d: "set_socket_values H tn ext bd (blender_id nd)
      (socket_values nd) Map.empty = Inr d"
    using set_socket_values_ok by (fastforce simp: node_accepts_def)
  let ?b = "length (nt_nodes nt)"
  let ?ns = "nt_nodes nt @ [fresh_node nd a d]"
  let ?nt2 = "nt\<lparr>nt_nodes := ?ns\<rparr>"
  from rel have len: "length built = length earlier" by (simp add: built_rel_def)
  have cond: "\<forall>sl\<in>set (socket_links nd). link_in_range (length built) (snd sl) \<and>
           resolve_input_socket (fst sl) \<in> set (inputs_of H (bl_idname (?ns ! ?b))) \<and>
           socket (snd sl) \<in> set (outputs_of H (bl_idname
             (?ns ! (built ! link_target (length built) (node_index (snd sl))))))"
  proof
    fix sl assume m: "sl \<in> set (socket_links nd)"
    with rng len have r: "link_in_range (length built) (snd sl)" by simp
    let ?j = "link_target (length built) (node_index (snd sl))"
    from link_target_less [OF r] have j: "?j < length built" .
    with rel have b: "built ! ?j < length (nt_nodes nt)"
      "bl_idname (nt_nodes nt ! (built ! ?j)) = blender_id (earlier ! ?j)"
      by (auto simp: built_rel_def)
    from acc m r len have
      "resolve_input_socket (fst sl) \<in> set (inputs_of H (blender_id nd))"
      "socket (snd sl) \<in> set (outputs_of H (blender_id (earlier ! ?j)))"
      by (auto simp: node_accepts_def link_sockets_ok_def)
    with r b show "link_in_range (length built) (snd sl) \<and>
           resolve_input_socket (fst sl) \<in> set (inputs_of H (bl_idname (?ns ! ?b))) \<and>
           socket (snd sl) \<in> set (outputs_of H (bl_idname (?ns ! (built ! ?j))))"
      by (simp add: nth_append fresh_node_def)
  qed
  have "nt_nodes ?nt2 = ?ns" by simp
  from link_sockets_ok [OF this cond] obtain nt' where
    l: "link_sockets H built ?b (socket_links nd) ?nt2 = Inr nt'" by blast
  have res: "build_node H tn ext bd nd (nt, built) = Inr (nt', built @ [?b])"
    using sk a d l by (simp add: build_node_eq)
  from link_sockets_nodes [OF l] have ns: "nt_nodes nt' = ?ns" by simp
  have "built_rel nt' (built @ [?b]) (earlier @ [nd])"
    unfolding built_rel_def
  proof (intro conjI allI impI)
    show "length (built @ [?b]) = length (earlier @ [nd])" using len by simp
  next
    fix j assume "j < length (built @ [?b])"
    then consider "j < length built" | "j = length built" by fastforce
    then show "(built @ [?b]) ! j < length (nt_nodes nt')"
    proof cases
      case 1 with rel ns show ?thesis by (auto simp: built_rel_def nth_append)
    next
      case 2 with ns show ?thesis by simp
    qed
  next
    fix j assume "j < length (built @ [?b])"
    then consider "j < length built" | "j = length built" by fastforce
    then show "bl_idname (nt_nodes nt' ! ((built @ [?b]) ! j)) = blender_id ((earlier @ [nd]) ! j)"
    proof cases
      case 1 with rel ns len show ?thesis by (auto simp: built_rel_def nth_append)
    next
      case 2 with ns len show ?thesis by (simp add: nth_append fresh_node_def)
    qed
  qed
  with res show ?thesis by blast
qed

lemma build_nodes_ok:
  assumes "built_rel nt built earlier"
    and "host_accepts H tn ext bd earlier ds"
    and "links_in_range (length earlier) ds"
  shows "\<exists>nt' built'. build_nodes H tn ext bd ds (nt, built) = Inr (nt', built') \<and>
           built_rel nt' built' (earlier @ ds)"
  using assms
proof (induction ds arbitrary: nt built earlier)
  case Nil
  then show ?case by simp
next
  case (Cons nd ds)
  from Cons.prems have acc: "node_accepts H tn ext bd earlier nd"
    and rng: "\<forall>sl\<in>set (socket_links nd). link_in_range (length earlier) (snd sl)"
    and acc': "host_accepts H tn ext bd (earlier @ [nd]) ds"
    and rng': "links_in_range (length (earlier @ [nd])) ds"
    by simp_all
  from build_node_ok [OF Cons.prems(1) acc rng] obtain nt1 where
    s: "build_node H tn ext bd nd (nt, built) = Inr (nt1, built @ [length (nt_nodes nt)])"
    and rel1: "built_rel nt1 (built @ [length (nt_nodes nt)]) (earlier @ [nd])"
    by blast
  from Cons.IH [OF rel1 acc' rng'] obtain nt' built' where
    "build_nodes H tn ext bd ds (nt1, built @ [length (nt_nodes nt)]) = Inr (nt', built')"
    "built_rel nt' built' ((earlier @ [nd]) @ ds)"
    by blast
  with s show ?case by simp
qed

lemma built_rel_Nil: "built_rel nt [] []"
  by (simp add: built_rel_def)

lemma built_rel_map:
  "built_rel nt built ds \<Longrightarrow> map (\<lambda>n. bl_idname (nt_nodes nt ! n)) built = map blender_id ds"
  by (auto simp: built_rel_def list_eq_iff_nth_eq)

lemma build_graph_ok:
  assumes ne: "ds \<noteq> []"
    and rng: "links_in_range 0 ds"
    and acc: "host_accepts H tn ext bd [] ds"
    and bsdf: "''BSDF'' \<in> set (outputs_of H (blender_id (last ds)))"
    and out: "out_node < length (nt_nodes nt)"
    and surf: "''Surface'' \<in> set (inputs_of H (bl_idname (nt_nodes nt ! out_node)))"
  shows "\<exists>nt' built_nodes.
           build_graph H tn ext bd ds out_node nt = Inr (nt', built_nodes, last built_nodes) \<and>
           built_nodes = [length (nt_nodes nt)..<length (nt_nodes nt) + length ds] \<and>
           length (nt_nodes nt') = length (nt_nodes nt) + length ds \<and>
           take (length (nt_nodes nt)) (nt_nodes nt') = nt_nodes nt \<and>
           map (\<lambda>n. bl_idname (nt_nodes nt' ! n)) built_nodes = map blender_id ds \<and>
           last (nt_links nt') =
             \<lparr>from_node = last built_nodes, from_socket = ''BSDF'',
              to_node = out_node, to_socket = ''Surface''\<rparr>"
proof -
  from build_nodes_ok [of nt "[]" "[]" H tn ext bd ds] acc rng built_rel_Nil [of nt]
  obtain nt1 built where
    b: "build_nodes H tn ext bd ds (nt, []) = Inr (nt1, built)"
    and rel: "built_rel nt1 built ds"
    by auto
  from build_nodes_Inr [OF b] obtain xs where
    bl: "built = [length (nt_nodes nt)..<length (nt_nodes nt) + length ds]"
    and ns: "nt_nodes nt1 = nt_nodes nt @ xs" "map bl_idname xs = map blender_id ds"
    by auto
  from ns have lx: "length xs = length ds" by (metis length_map)
  from rel have len: "length built = length ds" by (simp add: built_rel_def)
  with ne have bne: "built \<noteq> []" by auto
  have lastb: "last built = built ! (length ds - 1)"
    using bne len by (simp add: last_conv_nth)
  have "length ds - 1 < length built" using ne len by (cases ds) auto
  with rel have "bl_idname (nt_nodes nt1 ! (built ! (length ds - 1))) =
      blender_id (ds ! (length ds - 1))"
    by (simp add: built_rel_def)
  with lastb ne have k: "bl_idname (nt_nodes nt1 ! last built) = blender_id (last ds)"
    by (simp add: last_conv_nth)
  have o: "nt_nodes nt1 ! out_node = nt_nodes nt ! out_node"
    using ns out by (simp add: nth_append)
  let ?l = "\<lparr>from_node = last built, from_socket = ''BSDF'',
              to_node = out_node, to_socket = ''Surface''\<rparr>"
  have res: "build_graph H tn ext bd ds out_node nt = Inr (add_link ?l nt1, built, last built)"
    using b bne k o bsdf surf
    by (simp add: build_graph_def py_index_last node_output_def node_input_def)
  have n2: "nt_nodes (add_link ?l nt1) = nt_nodes nt1" by (simp add: add_link_def)
  have "last (nt_links (add_link ?l nt1)) = ?l" by (simp add: add_link_def)
  moreover have "map (\<lambda>n. bl_idname (nt_nodes (add_link ?l nt1) ! n)) built = map blender_id ds"
    using built_rel_map [OF rel] n2 by simp
  moreover have "length (nt_nodes (add_link ?l nt1)) = length (nt_nodes nt) + length ds"
    using n2 ns lx by simp
  moreover have "take (length (nt_nodes nt)) (nt_nodes (add_link ?l nt1)) = nt_nodes nt"
    using n2 ns by simp
  ultimately show ?thesis using res bl by blast
qed

lemma links_in_range_no_forward: "links_in_range p ds \<Longrightarrow> \<not> has_forward_link p ds"
  by (induction ds arbitrary: p) (auto simp: link_in_range_def)

lemma build_graph_Inr_nodes:
  "build_graph H tn ext bd ds out_node nt = Inr r \<Longrightarrow>
   \<exists>nt1 built. build_nodes H tn ext bd ds (nt, []) = Inr (nt1, built)"
  by (auto simp: build_graph_def split: sum.splits)

lemma build_graph_forward_fails:
  "has_forward_link 0 ds \<Longrightarrow> \<exists>e. build_graph H tn ext bd ds out_node nt = Inl e"
proof (cases "build_graph H tn ext bd ds out_node nt")
  case (Inl e)
  then show ?thesis by blast
next
  case (Inr r)
  assume f: "has_forward_link 0 ds"
  from build_graph_Inr_nodes [OF Inr] obtain nt1 built where
    "build_nodes H tn ext bd ds (nt, []) = Inr (nt1, built)" by blast
  from build_nodes_Inr [OF this] have "links_in_range 0 ds" by simp
  with f links_in_range_no_forward show ?thesis by blast
qed

lemma link_sockets_append:
  "link_sockets H built b (ls @ ms) nt =
     (case link_sockets H built b ls nt of
        Inl e \<Rightarrow> Inl e
      | Inr nt' \<Rightarrow> link_sockets H built b ms nt')"
proof (induction ls arbitrary: nt)
  case Nil
  then show ?case by simp
next
  case (Cons sl ls)
  obtain s k where "sl = (s, k)" by (cases sl)
  with Cons.IH show ?case by (simp split: sum.splits)
qed

lemma link_sockets_index_error:
  "\<not> link_in_range (length built) l \<Longrightarrow>
   link_sockets H built b ((s, l) # rest) nt = Inl IndexError"
  by (simp add: py_index_out_of_range)

subsection \<open>Example builds\<close>

lemmas example_defs =
  host0_def tree0_def out_tree_def tex_node_def bsdf_node_def plain_bsdf_def bd_tex0_def bd_empty_def idt_def

lemmas accept_defs =
  node_accepts_def props_ok_def socket_values_ok_def link_sockets_ok_def link_in_range_def
  link_target_def resolve_value_def images_get_def resolve_input_socket_def
  NODE_INPUT_SOCKET_MAP_def inputs_of_def outputs_of_def

lemmas build_defs =
  build_graph_def build_node_eq fresh_node_def py_index_def node_input_def node_output_def
  add_link_def resolve_value_def images_get_def resolve_input_socket_def
  NODE_INPUT_SOCKET_MAP_def inputs_of_def outputs_of_def Let_def

lemma ex_accepts: "host_accepts host0 idt ''.png'' bd_tex0 [] [tex_node, bsdf_node 0]"
  by (simp add: accept_defs example_defs)

lemma ex_range: "links_in_range 0 [tex_node, bsdf_node 0]"
  by (simp add: link_in_range_def example_defs)

lemma ex_empty: "build_graph host0 idt ''.png'' bd_tex0 [] 0 tree0 = Inl IndexError"
  by (simp add: build_graph_def py_index_def)

lemma ex_tex_only: "build_graph host0 idt ''.png'' bd_tex0 [tex_node] 0 tree0 = Inl (KeyError ''BSDF'')"
  by (simp add: build_defs example_defs)

lemma ex_neg0: "build_graph host0 idt ''.png'' bd_tex0 [bsdf_node (- 1)] 0 tree0 = Inl IndexError"
  by (simp add: build_defs example_defs)

lemma ex_self: "build_graph host0 idt ''.png'' bd_tex0 [tex_node, bsdf_node 1] 0 tree0 = Inl IndexError"
  by (simp add: build_defs example_defs)

lemma ex_good:
  "map_sum id (\<lambda>(nt, b, f). (map bl_idname (nt_nodes nt), nt_links nt, b, f))
     (build_graph host0 idt ''.png'' bd_tex0 [tex_node, bsdf_node 0] 0 tree0) =
   Inr ([''ShaderNodeOutputMaterial'', ''ShaderNodeTexImage'', ''ShaderNodeBsdfPrincipled''],
        [\<lparr>from_node = 1, from_socket = ''Color'', to_node = 2, to_socket = ''Base Color''\<rparr>,
         \<lparr>from_node = 2, from_socket = ''BSDF'', to_node = 0, to_socket = ''Surface''\<rparr>],
        [1, 2], 2)"
  by (simp add: build_defs example_defs)

lemma ex_back:
  "map_sum id (\<lambda>(nt, b, f). (map bl_idname (nt_nodes nt), nt_links nt, b, f))
     (build_graph host0 idt ''.png'' bd_tex0 [tex_node, bsdf_node (- 1)] 0 tree0) =
   Inr ([''ShaderNodeOutputMaterial'', ''ShaderNodeTexImage'', ''ShaderNodeBsdfPrincipled''],
        [\<lparr>from_node = 1, from_socket = ''Color'', to_node = 2, to_socket = ''Base Color''\<rparr>,
         \<lparr>from_node = 2, from_socket = ''BSDF'', to_node = 0, to_socket = ''Surface''\<rparr>],
        [1, 2], 2)"
  by (simp add: build_defs example_defs)

lemma ex_forward: "has_forward_link 0 [tex_node, bsdf_node 1]"
  by (simp add: example_defs)

lemma ex_tree0: "node_assign 0 (\<lambda>n. n\<lparr>location := (300, 0)\<rparr>) tree_out = tree0"
  by (simp add: node_assign_def tree_out_def tree0_def out_tree_def)

subsection \<open>The graph builder\<close>

text \<open>C1, as the code has it: for every non-empty node list in which each link index \<open>i\<close>
  of the node at position \<open>p\<close> satisfies \<open>-p \<le> i < p\<close>, whose node types, properties,
  socket defaults and socket names the host accepts, whose last node has a "BSDF" output,
  and for an output node with a "Surface" input, the build (lines 58-82) succeeds in one
  pass over the list: it appends exactly \<open>len(nodes)\<close> nodes to the tree, in descriptor
  order, \<^verbatim>\<open>shader_node\<close> is the last of them, and the last link made goes from its "BSDF"
  output to the "Surface" input of the output node.\<close>

theorem build_graph_in_order:
  assumes "ds \<noteq> []"
    and "links_in_range 0 ds"
    and "host_accepts H tn ext bd [] ds"
    and "''BSDF'' \<in> set (outputs_of H (blender_id (last ds)))"
    and "out_node < length (nt_nodes nt)"
    and "''Surface'' \<in> set (inputs_of H (bl_idname (nt_nodes nt ! out_node)))"
  shows "\<exists>nt' built_nodes.
           build_graph H tn ext bd ds out_node nt = Inr (nt', built_nodes, last built_nodes) \<and>
           built_nodes = [length (nt_nodes nt)..<length (nt_nodes nt) + length ds] \<and>
           length (nt_nodes nt') = length (nt_nodes nt) + length ds \<and>
           take (length (nt_nodes nt)) (nt_nodes nt') = nt_nodes nt \<and>
           map (\<lambda>n. bl_idname (nt_nodes nt' ! n)) built_nodes = map blender_id ds \<and>
           last (nt_links nt') =
             \<lparr>from_node = last built_nodes, from_socket = ''BSDF'',
              to_node = out_node, to_socket = ''Surface''\<rparr>"
  using assms by (rule build_graph_ok)

text \<open>A texture node linked into a principled shader.\<close>

theorem build_graph_in_order_witness:
  "[tex_node, bsdf_node 0] \<noteq> [] \<and>
   links_in_range 0 [tex_node, bsdf_node 0] \<and>
   host_accepts host0 idt ''.png'' bd_tex0 [] [tex_node, bsdf_node 0] \<and>
   ''BSDF'' \<in> set (outputs_of host0 (blender_id (last [tex_node, bsdf_node 0]))) \<and>
   0 < length (nt_nodes tree0) \<and>
   ''Surface'' \<in> set (inputs_of host0 (bl_idname (nt_nodes tree0 ! 0))) \<and>
   (\<exists>nt'. build_graph host0 idt ''.png'' bd_tex0 [tex_node, bsdf_node 0] 0 tree0 =
            Inr (nt', [1, 2], 2) \<and>
          length (nt_nodes nt') = 3 \<and>
          last (nt_links nt') =
            \<lparr>from_node = 2, from_socket = ''BSDF'', to_node = 0, to_socket = ''Surface''\<rparr>)"
proof -
  have h1: "[tex_node, bsdf_node 0] \<noteq> []" by simp
  have h4: "''BSDF'' \<in> set (outputs_of host0 (blender_id (last [tex_node, bsdf_node 0])))"
    by (simp add: outputs_of_def example_defs)
  have h5: "0 < length (nt_nodes tree0)" by (simp add: tree0_def out_tree_def)
  have h6: "''Surface'' \<in> set (inputs_of host0 (bl_idname (nt_nodes tree0 ! 0)))"
    by (simp add: inputs_of_def example_defs)
  from build_graph_in_order [OF h1 ex_range ex_accepts h4 h5 h6]
  obtain nt' b where r:
    "build_graph host0 idt ''.png'' bd_tex0 [tex_node, bsdf_node 0] 0 tree0 = Inr (nt', b, last b)"
    "b = [length (nt_nodes tree0)..<length (nt_nodes tree0) + length [tex_node, bsdf_node 0]]"
    "length (nt_nodes nt') = length (nt_nodes tree0) + length [tex_node, bsdf_node 0]"
    "last (nt_links nt') =
       \<lparr>from_node = last b, from_socket = ''BSDF'', to_node = 0, to_socket = ''Surface''\<rparr>"
    by blast
  have l: "length (nt_nodes tree0) = 1" by (simp add: tree0_def out_tree_def)
  from r(2) l have b: "b = [1, 2]" by (simp add: upt_rec)
  from r b l have "build_graph host0 idt ''.png'' bd_tex0 [tex_node, bsdf_node 0] 0 tree0 =
            Inr (nt', [1, 2], 2) \<and>
          length (nt_nodes nt') = 3 \<and>
          last (nt_links nt') =
            \<lparr>from_node = 2, from_socket = ''BSDF'', to_node = 0, to_socket = ''Surface''\<rparr>"
    by simp
  with h1 ex_range ex_accepts h4 h5 h6 show ?thesis by blast
qed

text \<open>C1 as stated fails: each of these lists has every link index below the position of
  its node, and the build raises: on the empty list, on a single node without a "BSDF"
  output, and on a first node whose link index is -1.\<close>

theorem build_graph_in_order_fails:
  "links_before 0 ([] :: string node_desc list) \<and>
   build_graph host0 idt ''.png'' bd_tex0 [] 0 tree0 = Inl IndexError \<and>
   links_before 0 [tex_node] \<and>
   build_graph host0 idt ''.png'' bd_tex0 [tex_node] 0 tree0 = Inl (KeyError ''BSDF'') \<and>
   links_before 0 [bsdf_node (- 1)] \<and>
   build_graph host0 idt ''.png'' bd_tex0 [bsdf_node (- 1)] 0 tree0 = Inl IndexError"
  by (simp add: ex_empty ex_tex_only ex_neg0) (simp add: example_defs)

text \<open>C2, as the code has it: a node list with a link whose index equals or exceeds the
  position of its node never builds: the result is an exception.  The exception is
  Python's \<^verbatim>\<open>IndexError\<close>, raised by \<^verbatim>\<open>built_nodes[link.node_index()]\<close>, whenever the
  build gets as far as that link: the nodes before it build, the host accepts the node's
  type, properties, socket defaults and the links before this one.\<close>

theorem forward_link_fails:
  "(has_forward_link 0 ds \<longrightarrow> (\<exists>e. build_graph H tn ext bd ds out_node nt = Inl e)) \<and>
   (links_in_range 0 pre \<and> host_accepts H tn ext bd [] pre \<and>
    node_accepts H tn ext bd pre (nd\<lparr>socket_links := ls\<rparr>) \<and>
    (\<forall>sl\<in>set ls. link_in_range (length pre) (snd sl)) \<and>
    socket_links nd = ls @ (s, l) # ms \<and> int (length pre) \<le> node_index l \<longrightarrow>
      build_graph H tn ext bd (pre @ nd # post) out_node nt = Inl IndexError)"
proof (intro conjI impI)
  assume "has_forward_link 0 ds"
  then show "\<exists>e. build_graph H tn ext bd ds out_node nt = Inl e"
    by (rule build_graph_forward_fails)
next
  assume a: "links_in_range 0 pre \<and> host_accepts H tn ext bd [] pre \<and>
    node_accepts H tn ext bd pre (nd\<lparr>socket_links := ls\<rparr>) \<and>
    (\<forall>sl\<in>set ls. link_in_range (length pre) (snd sl)) \<and>
    socket_links nd = ls @ (s, l) # ms \<and> int (length pre) \<le> node_index l"
  let ?nd' = "nd\<lparr>socket_links := ls\<rparr>"
  from build_nodes_ok [of nt "[]" "[]" H tn ext bd pre] a built_rel_Nil [of nt]
  obtain nt1 built where
    b: "build_nodes H tn ext bd pre (nt, []) = Inr (nt1, built)"
    and rel: "built_rel nt1 built pre"
    by auto
  from rel have len: "length built = length pre" by (simp add: built_rel_def)
  from a have acc: "node_accepts H tn ext bd pre ?nd'"
    and rng: "\<forall>sl\<in>set (socket_links ?nd'). link_in_range (length pre) (snd sl)"
    by simp_all
  from build_node_ok [OF rel acc rng] obtain nt2 where
    n: "build_node H tn ext bd ?nd' (nt1, built) = Inr (nt2, built @ [length (nt_nodes nt1)])"
    by blast
  from n obtain sk a' d nt3 where
    sk: "node_sockets H (blender_id nd) = Some sk"
    and a': "setattr_items (node_attr_ok H (blender_id nd)) tn ext bd (properties nd) Map.empty
               = Inr a'"
    and d: "set_socket_values H tn ext bd (blender_id nd) (socket_values nd) Map.empty = Inr d"
    and l: "link_sockets H built (length (nt_nodes nt1)) ls
              (nt1\<lparr>nt_nodes := nt_nodes nt1 @ [fresh_node nd a' d]\<rparr>) = Inr nt3"
    by (auto simp: build_node_eq fresh_node_def split: option.splits sum.splits)
  from a len have "\<not> link_in_range (length built) l" by (simp add: link_in_range_def)
  then have "link_sockets H built (length (nt_nodes nt1)) ((s, l) # ms) nt3 = Inl IndexError"
    by (rule link_sockets_index_error)
  with l a have "link_sockets H built (length (nt_nodes nt1)) (socket_links nd)
              (nt1\<lparr>nt_nodes := nt_nodes nt1 @ [fresh_node nd a' d]\<rparr>) = Inl IndexError"
    by (simp add: link_sockets_append)
  with sk a' d have "build_node H tn ext bd nd (nt1, built) = Inl IndexError"
    by (simp add: build_node_eq)
  with b have "build_nodes H tn ext bd (pre @ nd # post) (nt, []) = Inl IndexError"
    by (simp add: build_nodes_append)
  then show "build_graph H tn ext bd (pre @ nd # post) out_node nt = Inl IndexError"
    by (simp add: build_graph_def)
qed

text \<open>A shader at position 1 whose link names index 1.\<close>

theorem forward_link_fails_witness:
  "has_forward_link 0 [tex_node, bsdf_node 1] \<and>
   links_in_range 0 [tex_node] \<and>
   host_accepts host0 idt ''.png'' bd_tex0 [] [tex_node] \<and>
   node_accepts host0 idt ''.png'' bd_tex0 [tex_node] ((bsdf_node 1)\<lparr>socket_links := []\<rparr>) \<and>
   socket_links (bsdf_node 1) =
     [] @ (''Base Color'', \<lparr>node_index = 1, socket = ''Color''\<rparr>) # [] \<and>
   int (length [tex_node]) \<le> node_index \<lparr>node_index = 1, socket = ''Color''\<rparr> \<and>
   build_graph host0 idt ''.png'' bd_tex0 ([tex_node] @ bsdf_node 1 # []) 0 tree0 = Inl IndexError"
proof -
  have h1: "links_in_range 0 [tex_node]" by (simp add: example_defs)
  have h2: "host_accepts host0 idt ''.png'' bd_tex0 [] [tex_node]"
    by (simp add: accept_defs example_defs)
  have h3: "node_accepts host0 idt ''.png'' bd_tex0 [tex_node] ((bsdf_node 1)\<lparr>socket_links := []\<rparr>)"
    by (simp add: accept_defs example_defs)
  have h4: "\<forall>sl\<in>set ([] :: (string \<times> socket_link) list). link_in_range (length [tex_node]) (snd sl)"
    by simp
  have h5: "socket_links (bsdf_node 1) =
     [] @ (''Base Color'', \<lparr>node_index = 1, socket = ''Color''\<rparr>) # []"
    by (simp add: bsdf_node_def)
  have h6: "int (length [tex_node]) \<le> node_index \<lparr>node_index = 1, socket = ''Color''\<rparr>"
    by simp
  from forward_link_fails [where H = host0 and tn = idt and ext = "''.png''" and bd = bd_tex0
      and out_node = 0 and nt = tree0 and pre = "[tex_node]" and nd = "bsdf_node 1"
      and ls = "[]" and s = "''Base Color''" and l = "\<lparr>node_index = 1, socket = ''Color''\<rparr>"
      and ms = "[]" and post = "[]"]
    h1 h2 h3 h4 h5 h6
  have "build_graph host0 idt ''.png'' bd_tex0 ([tex_node] @ bsdf_node 1 # []) 0 tree0 =
      Inl IndexError"
    by blast
  with ex_forward h1 h2 h3 h5 h6 show ?thesis by blast
qed

text \<open>C2 as stated fails: the exception raised for that list is \<^verbatim>\<open>IndexError\<close>; the module has
  no \<^verbatim>\<open>GraphConsistencyError\<close>.\<close>

theorem forward_link_raises_index_error:
  "has_forward_link 0 [tex_node, bsdf_node 1] \<and>
   build_graph host0 idt ''.png'' bd_tex0 [tex_node, bsdf_node 1] 0 tree0 = Inl IndexError"
  using ex_self ex_forward by blast

text \<open>C7, as the code has it: on the empty node list the build raises \<^verbatim>\<open>IndexError\<close> (at
  \<^verbatim>\<open>built_nodes[-1]\<close>); a list of one node without links builds when the host accepts the
  node's type, properties and socket defaults, the node has a "BSDF" output and the output
  node a "Surface" input.\<close>

theorem build_graph_edge_cases:
  "build_graph H tn ext bd [] out_node nt = Inl IndexError \<and>
   (socket_links nd = [] \<and> node_accepts H tn ext bd [] nd \<and>
    ''BSDF'' \<in> set (outputs_of H (blender_id nd)) \<and>
    out_node < length (nt_nodes nt) \<and>
    ''Surface'' \<in> set (inputs_of H (bl_idname (nt_nodes nt ! out_node))) \<longrightarrow>
      (\<exists>nt'. build_graph H tn ext bd [nd] out_node nt =
                Inr (nt', [length (nt_nodes nt)], length (nt_nodes nt)) \<and>
             length (nt_nodes nt') = Suc (length (nt_nodes nt)) \<and>
             bl_idname (nt_nodes nt' ! length (nt_nodes nt)) = blender_id nd \<and>
             last (nt_links nt') =
               \<lparr>from_node = length (nt_nodes nt), from_socket = ''BSDF'',
                to_node = out_node, to_socket = ''Surface''\<rparr>))"
proof (intro conjI impI)
  show "build_graph H tn ext bd [] out_node nt = Inl IndexError"
    by (simp add: build_graph_def py_index_Nil)
next
  assume a: "socket_links nd = [] \<and> node_accepts H tn ext bd [] nd \<and>
    ''BSDF'' \<in> set (outputs_of H (blender_id nd)) \<and>
    out_node < length (nt_nodes nt) \<and>
    ''Surface'' \<in> set (inputs_of H (bl_idname (nt_nodes nt ! out_node)))"
  then have "[nd] \<noteq> []" "links_in_range 0 [nd]" "host_accepts H tn ext bd [] [nd]"
    "''BSDF'' \<in> set (outputs_of H (blender_id (last [nd])))"
    by simp_all
  from build_graph_ok [OF this] a obtain nt' b where r:
    "build_graph H tn ext bd [nd] out_node nt = Inr (nt', b, last b)"
    "b = [length (nt_nodes nt)..<length (nt_nodes nt) + length [nd]]"
    "length (nt_nodes nt') = length (nt_nodes nt) + length [nd]"
    "map (\<lambda>n. bl_idname (nt_nodes nt' ! n)) b = map blender_id [nd]"
    "last (nt_links nt') =
       \<lparr>from_node = last b, from_socket = ''BSDF'', to_node = out_node, to_socket = ''Surface''\<rparr>"
    by blast
  from r(2) have b: "b = [length (nt_nodes nt)]" by simp
  with r show "\<exists>nt'. build_graph H tn ext bd [nd] out_node nt =
                Inr (nt', [length (nt_nodes nt)], length (nt_nodes nt)) \<and>
             length (nt_nodes nt') = Suc (length (nt_nodes nt)) \<and>
             bl_idname (nt_nodes nt' ! length (nt_nodes nt)) = blender_id nd \<and>
             last (nt_links nt') =
               \<lparr>from_node = length (nt_nodes nt), from_socket = ''BSDF'',
                to_node = out_node, to_socket = ''Surface''\<rparr>"
    by auto
qed

text \<open>A single principled shader with a red base colour.\<close>

theorem build_graph_edge_cases_witness:
  "socket_links plain_bsdf = [] \<and> node_accepts host0 idt ''.png'' bd_empty [] plain_bsdf \<and>
   ''BSDF'' \<in> set (outputs_of host0 (blender_id plain_bsdf)) \<and>
   0 < length (nt_nodes tree0) \<and>
   ''Surface'' \<in> set (inputs_of host0 (bl_idname (nt_nodes tree0 ! 0))) \<and>
   (\<exists>nt'. build_graph host0 idt ''.png'' bd_empty [plain_bsdf] 0 tree0 = Inr (nt', [1], 1) \<and>
      length (nt_nodes nt') = 2 \<and>
      last (nt_links nt') =
        \<lparr>from_node = 1, from_socket = ''BSDF'', to_node = 0, to_socket = ''Surface''\<rparr>)"
proof -
  have h: "socket_links plain_bsdf = []" "node_accepts host0 idt ''.png'' bd_empty [] plain_bsdf"
    "''BSDF'' \<in> set (outputs_of host0 (blender_id plain_bsdf))"
    "0 < length (nt_nodes tree0)"
    "''Surface'' \<in> set (inputs_of host0 (bl_idname (nt_nodes tree0 ! 0)))"
    by (simp_all add: accept_defs example_defs)
  have l: "length (nt_nodes tree0) = 1" by (simp add: tree0_def out_tree_def)
  from build_graph_edge_cases [of host0 idt "''.png''" bd_empty 0 tree0 plain_bsdf] h
  have "\<exists>nt'. build_graph host0 idt ''.png'' bd_empty [plain_bsdf] 0 tree0 =
                Inr (nt', [length (nt_nodes tree0)], length (nt_nodes tree0)) \<and>
             length (nt_nodes nt') = Suc (length (nt_nodes tree0)) \<and>
             bl_idname (nt_nodes nt' ! length (nt_nodes tree0)) = blender_id plain_bsdf \<and>
             last (nt_links nt') =
               \<lparr>from_node = length (nt_nodes tree0), from_socket = ''BSDF'',
                to_node = 0, to_socket = ''Surface''\<rparr>"
    by blast
  with l have "\<exists>nt'. build_graph host0 idt ''.png'' bd_empty [plain_bsdf] 0 tree0 = Inr (nt', [1], 1) \<and>
      length (nt_nodes nt') = 2 \<and>
      last (nt_links nt') =
        \<lparr>from_node = 1, from_socket = ''BSDF'', to_node = 0, to_socket = ''Surface''\<rparr>"
    by auto
  with h show ?thesis by blast
qed

text \<open>C7 as stated fails: the exception on the empty list is \<^verbatim>\<open>IndexError\<close>, and a single
  image texture node without links does not build (\<^verbatim>\<open>KeyError\<close> for "BSDF").\<close>

theorem build_graph_empty_index_error:
  "build_graph host0 idt ''.png'' bd_tex0 [] 0 tree0 = Inl IndexError \<and>
   socket_links tex_node = [] \<and>
   build_graph host0 idt ''.png'' bd_tex0 [tex_node] 0 tree0 = Inl (KeyError ''BSDF'')"
  by (simp add: ex_empty ex_tex_only) (simp add: tex_node_def)

text \<open>C9, as the code has it: a negative link index \<open>i\<close> is not rejected as such.  With \<open>p\<close>
  nodes built so far and \<open>-p \<le> i < 0\<close>, the link is made from the node built at position
  \<open>p + i\<close> (so -1 is the node built last), provided the two sockets exist; with \<open>i < -p\<close>
  the lookup raises \<^verbatim>\<open>IndexError\<close>.\<close>

theorem negative_link_index:
  "(node_index l < 0 \<and> - int (length built_nodes) \<le> node_index l \<and>
    socket l \<in> set (outputs_of H (bl_idname (nt_nodes nt !
       (built_nodes ! (length built_nodes - nat (- node_index l)))))) \<and>
    resolve_input_socket s \<in> set (inputs_of H (bl_idname (nt_nodes nt ! built_node))) \<longrightarrow>
      link_sockets H built_nodes built_node [(s, l)] nt =
        Inr (add_link
              \<lparr>from_node = built_nodes ! (length built_nodes - nat (- node_index l)),
               from_socket = socket l, to_node = built_node,
               to_socket = resolve_input_socket s\<rparr> nt)) \<and>
   (node_index l < - int (length built_nodes) \<longrightarrow>
      link_sockets H built_nodes built_node ((s, l) # rest) nt = Inl IndexError)"
proof (intro conjI impI)
  assume a: "node_index l < 0 \<and> - int (length built_nodes) \<le> node_index l \<and>
    socket l \<in> set (outputs_of H (bl_idname (nt_nodes nt !
       (built_nodes ! (length built_nodes - nat (- node_index l)))))) \<and>
    resolve_input_socket s \<in> set (inputs_of H (bl_idname (nt_nodes nt ! built_node)))"
  then have "nat (int (length built_nodes) + node_index l) =
      length built_nodes - nat (- node_index l)" by linarith
  with a have "py_index built_nodes (node_index l) =
      Inr (built_nodes ! (length built_nodes - nat (- node_index l)))"
    by (simp add: py_index_def)
  with a show "link_sockets H built_nodes built_node [(s, l)] nt =
        Inr (add_link
              \<lparr>from_node = built_nodes ! (length built_nodes - nat (- node_index l)),
               from_socket = socket l, to_node = built_node,
               to_socket = resolve_input_socket s\<rparr> nt)"
    by (simp add: node_output_def node_input_def)
next
  assume "node_index l < - int (length built_nodes)"
  then have "\<not> link_in_range (length built_nodes) l" by (simp add: link_in_range_def)
  then show "link_sockets H built_nodes built_node ((s, l) # rest) nt = Inl IndexError"
    by (rule link_sockets_index_error)
qed

text \<open>Index -1 with one node built, and with none; and the whole build of a shader whose
  link names index -1 at position 1.\<close>

theorem negative_link_index_witness:
  "node_index \<lparr>node_index = - 1, socket = ''Color''\<rparr> < 0 \<and>
   - int (length [1 :: nat]) \<le> node_index \<lparr>node_index = - 1, socket = ''Color''\<rparr> \<and>
   link_sockets host0 [1] 2 [(''Base Color'', \<lparr>node_index = - 1, socket = ''Color''\<rparr>)] tree_two =
     Inr (add_link \<lparr>from_node = 1, from_socket = ''Color'', to_node = 2,
                    to_socket = ''Base Color''\<rparr> tree_two) \<and>
   node_index \<lparr>node_index = - 1, socket = ''Color''\<rparr> < - int (length ([] :: nat list)) \<and>
   link_sockets host0 [] 1 [(''Base Color'', \<lparr>node_index = - 1, socket = ''Color''\<rparr>)] tree0 =
     Inl IndexError \<and>
   map_sum id (\<lambda>(nt, b, f). (map bl_idname (nt_nodes nt), nt_links nt, b, f))
     (build_graph host0 idt ''.png'' bd_tex0 [tex_node, bsdf_node (- 1)] 0 tree0) =
   Inr ([''ShaderNodeOutputMaterial'', ''ShaderNodeTexImage'', ''ShaderNodeBsdfPrincipled''],
        [\<lparr>from_node = 1, from_socket = ''Color'', to_node = 2, to_socket = ''Base Color''\<rparr>,
         \<lparr>from_node = 2, from_socket = ''BSDF'', to_node = 0, to_socket = ''Surface''\<rparr>],
        [1, 2], 2)"
proof -
  let ?l = "\<lparr>node_index = - 1, socket = ''Color''\<rparr>"
  have h1: "node_index ?l < 0" "- int (length [1 :: nat]) \<le> node_index ?l" by simp_all
  have h2: "socket ?l \<in> set (outputs_of host0 (bl_idname (nt_nodes tree_two !
       ([1] ! (length [1 :: nat] - nat (- node_index ?l))))))"
    by (simp add: tree_two_def fresh_node_def outputs_of_def example_defs)
  have h3: "resolve_input_socket ''Base Color'' \<in>
      set (inputs_of host0 (bl_idname (nt_nodes tree_two ! 2)))"
    by (simp add: tree_two_def fresh_node_def inputs_of_def resolve_input_socket_def
          NODE_INPUT_SOCKET_MAP_def example_defs)
  have h4: "node_index ?l < - int (length ([] :: nat list))" by simp
  from negative_link_index [where l = ?l and built_nodes = "[1]" and H = host0
      and nt = tree_two and s = "''Base Color''" and built_node = 2] h1 h2 h3
  have a: "link_sockets host0 [1] 2 [(''Base Color'', ?l)] tree_two =
     Inr (add_link \<lparr>from_node = [1] ! (length [1 :: nat] - nat (- node_index ?l)),
                    from_socket = socket ?l, to_node = 2,
                    to_socket = resolve_input_socket ''Base Color''\<rparr> tree_two)"
    by blast
  have a': "link_sockets host0 [1] 2 [(''Base Color'', ?l)] tree_two =
     Inr (add_link \<lparr>from_node = 1, from_socket = ''Color'', to_node = 2,
                    to_socket = ''Base Color''\<rparr> tree_two)"
    using a by (simp add: resolve_input_socket_def NODE_INPUT_SOCKET_MAP_def)
  from negative_link_index [where l = ?l and built_nodes = "[]" and H = host0
      and nt = tree0 and s = "''Base Color''" and built_node = 1 and rest = "[]"] h4
  have b: "link_sockets host0 [] 1 [(''Base Color'', ?l)] tree0 = Inl IndexError"
    by blast
  from h1 h4 a' b ex_back show ?thesis by blast
qed

text \<open>C9 as stated fails: a negative index in the first node of the list makes the build
  raise \<^verbatim>\<open>IndexError\<close>.\<close>

theorem negative_index_at_first_node_fails:
  "socket_links (bsdf_node (- 1)) = [(''Base Color'', \<lparr>node_index = - 1, socket = ''Color''\<rparr>)] \<and>
   build_graph host0 idt ''.png'' bd_tex0 [bsdf_node (- 1)] 0 tree0 = Inl IndexError"
  using ex_neg0 by (simp add: bsdf_node_def)

lemma map_nth_append_upt:
  "map (\<lambda>n. f ((ys @ xs) ! n)) [length ys..<length ys + length xs] = map f xs"
  by (rule nth_equalityI) simp_all

text \<open>C10: in \<^verbatim>\<open>import_material\<close> the output node is created first, in the cleared tree,
  and is node 0.  After the loop has passed any number of descriptors \<open>ds\<close>,
  \<^verbatim>\<open>built_nodes\<close> is the list of the nodes 1 .. \<open>len(ds)\<close>: the nodes created from \<open>ds\<close>, in
  the order of \<open>ds\<close>, and nothing else.  The output node is not among them, no index
  accepted by \<^verbatim>\<open>built_nodes[i]\<close> yields it, and no link made by the loop starts at it.
  (By \<open>build_nodes_append\<close> the state of the loop after the first \<open>k\<close> descriptors of a
  list is the result of the loop on those \<open>k\<close> descriptors.)\<close>

theorem built_nodes_exclude_output:
  assumes "nodes_new H ''ShaderNodeOutputMaterial'' (nodes_clear nt0) = Inr (nt1, out_node)"
    and "build_nodes H tn ext bd ds
           (node_assign out_node (\<lambda>n. n\<lparr>location := (300, 0)\<rparr>) nt1, []) =
         Inr (nt', built_nodes)"
  shows "out_node = 0 \<and>
         built_nodes = [1..<Suc (length ds)] \<and>
         out_node \<notin> set built_nodes \<and>
         length (nt_nodes nt') = Suc (length ds) \<and>
         bl_idname (nt_nodes nt' ! out_node) = ''ShaderNodeOutputMaterial'' \<and>
         map (\<lambda>n. bl_idname (nt_nodes nt' ! n)) built_nodes = map blender_id ds \<and>
         (\<forall>i n. py_index built_nodes i = Inr n \<longrightarrow> n \<noteq> out_node) \<and>
         (\<forall>l\<in>set (nt_links nt'). from_node l \<in> set built_nodes \<and> from_node l \<noteq> out_node)"
proof -
  let ?nt2 = "node_assign out_node (\<lambda>n. n\<lparr>location := (300, 0)\<rparr>) nt1"
  from assms(1) have o: "out_node = 0"
    and n2: "nt_nodes ?nt2 = [\<lparr>bl_idname = ''ShaderNodeOutputMaterial'', location = (300, 0),
                attrs = Map.empty, input_defaults = Map.empty\<rparr>]"
    and l2: "nt_links ?nt2 = []"
    by (auto simp: nodes_new_def nodes_clear_def node_assign_def split: option.splits)
  from build_nodes_Inr [OF assms(2)] n2 l2 obtain xs where
    b: "built_nodes = [1..<Suc (length ds)]"
    and ns: "nt_nodes nt' = nt_nodes ?nt2 @ xs" "map bl_idname xs = map blender_id ds"
    and lk: "\<forall>l\<in>set (nt_links nt'). from_node l \<in> set built_nodes"
    by auto
  from ns(2) have lx: "length xs = length ds" by (metis length_map)
  have len: "length (nt_nodes ?nt2) = 1" using n2 by simp
  have notin: "out_node \<notin> set built_nodes" using o b by (simp del: upt_Suc)
  have m: "map (\<lambda>n. bl_idname (nt_nodes nt' ! n)) built_nodes = map blender_id ds"
    using map_nth_append_upt [of bl_idname "nt_nodes ?nt2" xs] ns b len lx by simp
  have k: "bl_idname (nt_nodes nt' ! out_node) = ''ShaderNodeOutputMaterial''"
    using ns(1) n2 o by simp
  have p: "\<forall>i n. py_index built_nodes i = Inr n \<longrightarrow> n \<noteq> out_node"
    using notin py_index_mem by fastforce
  have "length (nt_nodes nt') = Suc (length ds)" using ns(1) len lx by simp
  with o b notin m k p lk show ?thesis by blast
qed

text \<open>The two example nodes, built after the tree is cleared.\<close>

theorem built_nodes_exclude_output_witness:
  "nodes_new host0 ''ShaderNodeOutputMaterial'' (nodes_clear tree_two) = Inr (tree_out, 0) \<and>
   (\<exists>nt'. build_nodes host0 idt ''.png'' bd_tex0 [tex_node, bsdf_node 0]
             (node_assign 0 (\<lambda>n. n\<lparr>location := (300, 0)\<rparr>) tree_out, []) = Inr (nt', [1, 2]) \<and>
          0 \<notin> set [1, 2 :: nat] \<and>
          length (nt_nodes nt') = 3 \<and>
          bl_idname (nt_nodes nt' ! 0) = ''ShaderNodeOutputMaterial'' \<and>
          map (\<lambda>n. bl_idname (nt_nodes nt' ! n)) [1, 2] =
            map blender_id [tex_node, bsdf_node 0])"
proof -
  have h1: "nodes_new host0 ''ShaderNodeOutputMaterial'' (nodes_clear tree_two) = Inr (tree_out, 0)"
    by (simp add: nodes_new_def nodes_clear_def tree_two_def tree_out_def host0_def)
  from build_nodes_ok [of tree0 "[]" "[]" host0 idt "''.png''" bd_tex0 "[tex_node, bsdf_node 0]"]
    built_rel_Nil [of tree0] ex_accepts ex_range
  obtain nt' b where "build_nodes host0 idt ''.png'' bd_tex0 [tex_node, bsdf_node 0]
      (tree0, []) = Inr (nt', b)"
    by auto
  then have h2: "build_nodes host0 idt ''.png'' bd_tex0 [tex_node, bsdf_node 0]
      (node_assign 0 (\<lambda>n. n\<lparr>location := (300, 0)\<rparr>) tree_out, []) = Inr (nt', b)"
    by (simp add: ex_tree0)
  from built_nodes_exclude_output [OF h1 h2]
  have r: "b = [1..<Suc (length [tex_node, bsdf_node 0])]"
    "length (nt_nodes nt') = Suc (length [tex_node, bsdf_node 0])"
    "bl_idname (nt_nodes nt' ! 0) = ''ShaderNodeOutputMaterial''"
    "map (\<lambda>n. bl_idname (nt_nodes nt' ! n)) b = map blender_id [tex_node, bsdf_node 0]"
    by blast+
  from r(1) have b: "b = [1, 2]" by (simp add: upt_rec)
  from h2 r b have "build_nodes host0 idt ''.png'' bd_tex0 [tex_node, bsdf_node 0]
             (node_assign 0 (\<lambda>n. n\<lparr>location := (300, 0)\<rparr>) tree_out, []) = Inr (nt', [1, 2]) \<and>
          0 \<notin> set [1, 2 :: nat] \<and>
          length (nt_nodes nt') = 3 \<and>
          bl_idname (nt_nodes nt' ! 0) = ''ShaderNodeOutputMaterial'' \<and>
          map (\<lambda>n. bl_idname (nt_nodes nt' ! n)) [1, 2] =
            map blender_id [tex_node, bsdf_node 0]"
    by simp
  with h1 show ?thesis by blast
qed

subsection \<open>Building a material twice\<close>



























end
